theory Spec2Isabelle
  imports Main
begin

section \<open>Data model (src/database/models.py)\<close>

text \<open>
  A calendar date (Python's \<open>datetime.date\<close>) is represented by its proleptic Gregorian
  ordinal, the value of \<open>date.toordinal()\<close>: Python orders dates as it orders their
  ordinals, and \<open>d + timedelta(days=n)\<close> is the date whose ordinal is \<open>n\<close> larger.
  \<open>ymd2ord\<close> is the ordinal of the date written year, month, day, as the standard
  library computes it; it is used to write concrete dates.
\<close>

type_synonym date = int

definition is_leap :: "int \<Rightarrow> bool" where
  "is_leap y = (y mod 4 = 0 \<and> (y mod 100 \<noteq> 0 \<or> y mod 400 = 0))"

definition days_before_year :: "int \<Rightarrow> int" where
  "days_before_year y = (y - 1) * 365 + (y - 1) div 4 - (y - 1) div 100 + (y - 1) div 400"

definition days_before_month :: "int \<Rightarrow> nat \<Rightarrow> int" where
  "days_before_month y m =
     [0, 0, 31, 59, 90, 120, 151, 181, 212, 243, 273, 304, 334] ! m
       + (if 2 < m \<and> is_leap y then 1 else 0)"

definition ymd2ord :: "int \<Rightarrow> nat \<Rightarrow> int \<Rightarrow> date" where
  "ymd2ord y m d = days_before_year y + days_before_month y m + d"

text \<open>
  The table \<open>users\<close>. The two timestamps \<open>created_at\<close> and \<open>updated_at\<close> are filled by
  the database clock and read by no function of the repository; they are left out.
\<close>

record user =
  u_id :: int
  username :: string
  u_email :: string
  password :: string
  avatar :: "string option"
  refresh_token :: "string option"
  confirmed :: bool

text \<open>
  The table \<open>contacts\<close>. The relationship \<open>user\<close> is the foreign key \<open>user_id\<close>
  (nullable): \<open>Contact(..., user=u)\<close> stores \<open>u.id\<close>, and the criterion \<open>user=u\<close> of a
  query compares \<open>user_id\<close> with \<open>u.id\<close>. The three date columns are declared
  \<open>DateTime\<close>; the code only ever writes dates into them and compares them with
  dates, so a stored value is the date it was written as.
\<close>

record contact =
  c_id :: int
  first_name :: string
  last_name :: string
  c_email :: string
  phone_number :: string
  birthday :: date
  created_date :: "date option"
  update_date :: "date option"
  user_id :: "int option"

text \<open>
  The committed state of the database: the rows of both tables in storage order, and
  the last value each primary-key sequence has handed out.
\<close>

record database =
  users :: "user list"
  contacts :: "contact list"
  user_seq :: int
  contact_seq :: int

text \<open>
  Everything the code raises is a value. \<open>HTTPException\<close> carries the status code and
  the detail string of the source; the others are the exceptions that Python, the
  object-relational mapper and the validation of a request raise.
\<close>

datatype error =
    HTTPException nat string
  | TypeError
  | AttributeError
  | ArgumentError
  | InvalidRequestError
  | MultipleResultsFound
  | IntegrityError
  | DBAPIError
  | ValidationError
  | RequestValidationError
  | ResponseValidationError

text \<open>The unique constraint on \<open>users.email\<close>, as a property of a database state.\<close>

definition unique_emails :: "database \<Rightarrow> bool" where
  "unique_emails db = distinct (map u_email (users db))"

section \<open>Schemas (src/schemas.py)\<close>

text \<open>
  A \<open>UserSchema\<close> is a signup body that has passed validation (the length bounds on
  \<open>username\<close> and \<open>password\<close>, the syntax of \<open>email\<close>); the handler reads its three
  fields and nothing else of it. \<open>TokenModel\<close> is the shape of the dictionary that
  \<open>login\<close> and \<open>refresh_token\<close> return. \<open>UserResponseSchema\<close> is the response model
  declared for \<open>signup\<close>: four required fields, \<open>id\<close>, \<open>username\<close>, \<open>email\<close> and
  \<open>avatar\<close>.
\<close>

record UserSchema =
  us_username :: string
  us_email :: string
  us_password :: string

record TokenModel =
  access_token :: string
  tm_refresh_token :: string
  token_type :: string

record UserResponseSchema =
  ur_id :: int
  ur_username :: string
  ur_email :: string
  ur_avatar :: string

text \<open>
  A dictionary returned by a handler: its keys with their values. The framework
  validates such a dictionary against the response model of the route before it
  answers: every required field of the model must be a key of the dictionary, with a
  value of the field's type; otherwise it raises \<open>ResponseValidationError\<close> and the
  answer is HTTP 500.
\<close>

datatype dict_value = DInt int | DStr string | DUser user

definition UserResponseSchema_validate ::
  "(string \<times> dict_value) list \<Rightarrow> error + UserResponseSchema" where
  "UserResponseSchema_validate d =
     (case (map_of d ''id'', map_of d ''username'', map_of d ''email'', map_of d ''avatar'') of
        (Some (DInt i), Some (DStr n), Some (DStr e), Some (DStr a)) \<Rightarrow>
          Inr \<lparr>ur_id = i, ur_username = n, ur_email = e, ur_avatar = a\<rparr>
      | _ \<Rightarrow> Inl ResponseValidationError)"

section \<open>Result sets\<close>

text \<open>
  \<open>Result.scalar_one_or_none()\<close>: no row gives \<open>None\<close>, one row gives the row, more
  than one raises. \<open>Result.scalars().first()\<close>: the first row or \<open>None\<close>.
\<close>

definition scalar_one_or_none :: "'a list \<Rightarrow> error + 'a option" where
  "scalar_one_or_none rows =
     (case rows of
        [] \<Rightarrow> Inr None
      | [r] \<Rightarrow> Inr (Some r)
      | _ \<Rightarrow> Inl MultipleResultsFound)"

definition scalars_first :: "'a list \<Rightarrow> 'a option" where
  "scalars_first rows = (case rows of [] \<Rightarrow> None | r # _ \<Rightarrow> Some r)"

section \<open>User repository (src/repository/users.py)\<close>

definition repository_users_get_user_by_email :: "string \<Rightarrow> database \<Rightarrow> error + user option" where
  "repository_users_get_user_by_email email db =
     scalar_one_or_none (filter (\<lambda>u. u_email u = email) (users db))"

text \<open>
  \<open>create_user\<close>. The avatar lookup is a parameter \<open>gravatar\<close>: it gives the image URL,
  or \<open>None\<close> where the lookup raises (the exception is logged and the avatar stays
  absent). The new row takes the next identifier, the column defaults
  \<open>confirmed = False\<close> and no refresh token; the commit fails on the unique constraint
  of \<open>email\<close>.
\<close>

definition repository_users_create_user ::
  "(string \<Rightarrow> string option) \<Rightarrow> UserSchema \<Rightarrow> database \<Rightarrow> (error + user) \<times> database" where
  "repository_users_create_user gravatar body db =
     (let new_user = \<lparr>u_id = user_seq db + 1,
                      username = us_username body,
                      u_email = us_email body,
                      password = us_password body,
                      avatar = gravatar (us_email body),
                      refresh_token = None,
                      confirmed = False\<rparr>
      in if us_email body \<in> set (map u_email (users db))
         then (Inl IntegrityError, db)
         else (Inr new_user,
               db\<lparr>users := users db @ [new_user], user_seq := user_seq db + 1\<rparr>))"

text \<open>
  \<open>update_token\<close> assigns the attribute on the loaded row and commits: the row with
  the user's primary key gets the new value (\<open>None\<close> clears it).
\<close>

definition repository_users_update_token :: "user \<Rightarrow> string option \<Rightarrow> database \<Rightarrow> database" where
  "repository_users_update_token usr token db =
     db\<lparr>users := map (\<lambda>u. if u_id u = u_id usr then u\<lparr>refresh_token := token\<rparr> else u)
                     (users db)\<rparr>"

text \<open>
  \<open>confirmed_email\<close> does not test the user it loads: on \<open>None\<close> the assignment
  \<open>user.confirmed = True\<close> raises \<open>AttributeError\<close>.
\<close>

definition repository_users_confirmed_email :: "string \<Rightarrow> database \<Rightarrow> (error + unit) \<times> database" where
  "repository_users_confirmed_email email db =
     (case repository_users_get_user_by_email email db of
        Inl e \<Rightarrow> (Inl e, db)
      | Inr None \<Rightarrow> (Inl AttributeError, db)
      | Inr (Some usr) \<Rightarrow>
          (Inr (),
           db\<lparr>users := map (\<lambda>u. if u_id u = u_id usr then u\<lparr>confirmed := True\<rparr> else u)
                           (users db)\<rparr>))"

text \<open>
  \<open>update_avatar\<close> calls \<open>db.commit()\<close> without awaiting it: the coroutine never runs,
  so nothing is committed. The function returns the loaded object with the new avatar.
\<close>

definition repository_users_update_avatar ::
  "string \<Rightarrow> string \<Rightarrow> database \<Rightarrow> (error + user) \<times> database" where
  "repository_users_update_avatar email url db =
     (case repository_users_get_user_by_email email db of
        Inl e \<Rightarrow> (Inl e, db)
      | Inr None \<Rightarrow> (Inl AttributeError, db)
      | Inr (Some usr) \<Rightarrow> (Inr (usr\<lparr>avatar := Some url\<rparr>), db))"

section \<open>Authentication service (src/services/auth.py, not among the sources)\<close>

text \<open>
  The routes call \<open>auth_service\<close>; its module is not part of the sources, so its
  operations are parameters of the routes. The two token constructors are called with
  \<open>data = {"sub": email}\<close>; the two decoders return the subject email or raise.
\<close>

record auth_service =
  get_password_hash :: "string \<Rightarrow> string"
  verify_password :: "string \<Rightarrow> string \<Rightarrow> bool"
  create_access_token :: "string \<Rightarrow> string"
  create_refresh_token :: "string \<Rightarrow> string"
  decode_refresh_token :: "string \<Rightarrow> error + string"
  get_email_from_token :: "string \<Rightarrow> error + string"

section \<open>Authentication routes (src/routes/auth.py)\<close>

text \<open>
  A route is modelled from the request the framework hands to its handler to the answer:
  the result is the validated value the handler returned (with the status code the
  decorator declares) or the exception raised, and the committed state. \<open>login\<close> and
  \<open>refresh_token\<close> return a dictionary with exactly the three fields of their response
  model \<open>TokenModel\<close>, so their result is written as a \<open>TokenModel\<close>.
\<close>

text \<open>
  The handler of \<open>signup\<close>. It returns the dictionary
  \<open>{"user": new_user, "detail": "User successfully created"}\<close> and schedules
  \<open>send_email(email, username, base_url)\<close> as a background task, recorded here by its
  arguments.
\<close>

record signup_result =
  result_dict :: "(string \<times> dict_value) list"
  background_task :: "string \<times> string \<times> string"

definition routes_auth_signup_handler ::
  "auth_service \<Rightarrow> (string \<Rightarrow> string option) \<Rightarrow> string \<Rightarrow> UserSchema \<Rightarrow> database
     \<Rightarrow> (error + signup_result) \<times> database" where
  "routes_auth_signup_handler auth gravatar base_url body db =
     (case repository_users_get_user_by_email (us_email body) db of
        Inl e \<Rightarrow> (Inl e, db)
      | Inr (Some exist_user) \<Rightarrow> (Inl (HTTPException 409 ''Account already exists''), db)
      | Inr None \<Rightarrow>
          (let body' = body\<lparr>us_password := get_password_hash auth (us_password body)\<rparr>
           in case repository_users_create_user gravatar body' db of
                (Inl e, db') \<Rightarrow> (Inl e, db')
              | (Inr new_user, db') \<Rightarrow>
                  (Inr \<lparr>result_dict = [(''user'', DUser new_user),
                                       (''detail'', DStr ''User successfully created'')],
                        background_task = (u_email new_user, username new_user, base_url)\<rparr>,
                   db')))"

text \<open>
  The route \<open>signup\<close> as its decorator registers it:
  \<open>response_model=UserResponseSchema\<close> and \<open>status_code=201\<close>. The dictionary the
  handler returns is validated against the response model; the answer is 201 with the
  validated content when that succeeds, and the validation error otherwise. What the
  handler committed stays committed either way.
\<close>

record signup_response =
  status_code :: nat
  content :: UserResponseSchema
  scheduled :: "string \<times> string \<times> string"

definition routes_auth_signup ::
  "auth_service \<Rightarrow> (string \<Rightarrow> string option) \<Rightarrow> string \<Rightarrow> UserSchema \<Rightarrow> database
     \<Rightarrow> (error + signup_response) \<times> database" where
  "routes_auth_signup auth gravatar base_url body db =
     (case routes_auth_signup_handler auth gravatar base_url body db of
        (Inl e, db') \<Rightarrow> (Inl e, db')
      | (Inr r, db') \<Rightarrow>
          (case UserResponseSchema_validate (result_dict r) of
             Inl e \<Rightarrow> (Inl e, db')
           | Inr validated \<Rightarrow>
               (Inr \<lparr>status_code = 201, content = validated,
                     scheduled = background_task r\<rparr>,
                db')))"

text \<open>\<open>login\<close>: the form field \<open>username\<close> holds the email.\<close>

definition routes_auth_login ::
  "auth_service \<Rightarrow> string \<Rightarrow> string \<Rightarrow> database \<Rightarrow> (error + TokenModel) \<times> database" where
  "routes_auth_login auth form_username form_password db =
     (case repository_users_get_user_by_email form_username db of
        Inl e \<Rightarrow> (Inl e, db)
      | Inr None \<Rightarrow> (Inl (HTTPException 401 ''Invalid email''), db)
      | Inr (Some usr) \<Rightarrow>
          if \<not> confirmed usr then (Inl (HTTPException 401 ''Email not confirmed''), db)
          else if \<not> verify_password auth form_password (password usr)
          then (Inl (HTTPException 401 ''Invalid password''), db)
          else
            (let access = create_access_token auth (u_email usr);
                 refresh = create_refresh_token auth (u_email usr)
             in (Inr \<lparr>access_token = access, tm_refresh_token = refresh,
                      token_type = ''bearer''\<rparr>,
                 repository_users_update_token usr (Some refresh) db)))"

text \<open>
  \<open>refresh_token\<close>: the handler reads \<open>user.refresh_token\<close> without testing the user
  it loaded, so an absent user raises \<open>AttributeError\<close>.
\<close>

definition routes_auth_refresh_token ::
  "auth_service \<Rightarrow> string \<Rightarrow> database \<Rightarrow> (error + TokenModel) \<times> database" where
  "routes_auth_refresh_token auth token db =
     (case decode_refresh_token auth token of
        Inl e \<Rightarrow> (Inl e, db)
      | Inr email \<Rightarrow>
          (case repository_users_get_user_by_email email db of
             Inl e \<Rightarrow> (Inl e, db)
           | Inr None \<Rightarrow> (Inl AttributeError, db)
           | Inr (Some usr) \<Rightarrow>
               if refresh_token usr \<noteq> Some token
               then (Inl (HTTPException 401 ''Invalid refresh token''),
                     repository_users_update_token usr None db)
               else
                 (let access = create_access_token auth email;
                      refresh = create_refresh_token auth email
                  in (Inr \<lparr>access_token = access, tm_refresh_token = refresh,
                           token_type = ''bearer''\<rparr>,
                      repository_users_update_token usr (Some refresh) db))))"

text \<open>\<open>confirmed_email\<close>: the route returns a message.\<close>

definition routes_auth_confirmed_email ::
  "auth_service \<Rightarrow> string \<Rightarrow> database \<Rightarrow> (error + string) \<times> database" where
  "routes_auth_confirmed_email auth token db =
     (case get_email_from_token auth token of
        Inl e \<Rightarrow> (Inl e, db)
      | Inr email \<Rightarrow>
          (case repository_users_get_user_by_email email db of
             Inl e \<Rightarrow> (Inl e, db)
           | Inr None \<Rightarrow> (Inl (HTTPException 400 ''Verification error''), db)
           | Inr (Some usr) \<Rightarrow>
               if confirmed usr then (Inr ''Your email is already confirmed'', db)
               else
                 (case repository_users_confirmed_email email db of
                    (Inl e, db') \<Rightarrow> (Inl e, db')
                  | (Inr _, db') \<Rightarrow> (Inr ''Email confirmed'', db'))))"

section \<open>Contact schemas (src/schemas.py)\<close>

record ContactSchema =
  cs_first_name :: string
  cs_last_name :: string
  cs_email :: string
  cs_phone_number :: string
  cs_birthday :: date
  cs_created_date :: "date option"

record ContactUpdateSchema =
  cu_first_name :: string
  cu_last_name :: string
  cu_email :: string
  cu_phone_number :: string
  cu_birthday :: date
  cu_update_date :: "date option"

text \<open>
  The keyword arguments a schema is built from (the fields of the request body). A
  field is \<open>None\<close> when the key is missing; for the two optional dates \<open>Some None\<close> is
  an explicit null. Keys a schema does not declare are ignored by it.
\<close>

record payload =
  p_first_name :: "string option"
  p_last_name :: "string option"
  p_email :: "string option"
  p_phone_number :: "string option"
  p_birthday :: "date option"
  p_created_date :: "date option option"
  p_update_date :: "date option option"

text \<open>
  \<open>ContactSchema.__init__\<close>: the base class validates the data (every declared field
  must be present; \<open>created_date\<close> has no default, so its key is required although its
  value may be null), then \<open>created_date\<close> is assigned \<open>date.today()\<close>. The clock is
  the parameter \<open>today\<close>.
\<close>

definition ContactSchema_init :: "date \<Rightarrow> payload \<Rightarrow> error + ContactSchema" where
  "ContactSchema_init today data =
     (if p_first_name data = None \<or> p_last_name data = None \<or> p_email data = None
         \<or> p_phone_number data = None \<or> p_birthday data = None \<or> p_created_date data = None
      then Inl ValidationError
      else
        (let self = \<lparr>cs_first_name = the (p_first_name data),
                     cs_last_name = the (p_last_name data),
                     cs_email = the (p_email data),
                     cs_phone_number = the (p_phone_number data),
                     cs_birthday = the (p_birthday data),
                     cs_created_date = the (p_created_date data)\<rparr>
         in Inr (self\<lparr>cs_created_date := Some today\<rparr>)))"

definition ContactUpdateSchema_init :: "date \<Rightarrow> payload \<Rightarrow> error + ContactUpdateSchema" where
  "ContactUpdateSchema_init today data =
     (if p_first_name data = None \<or> p_last_name data = None \<or> p_email data = None
         \<or> p_phone_number data = None \<or> p_birthday data = None \<or> p_update_date data = None
      then Inl ValidationError
      else
        (let self = \<lparr>cu_first_name = the (p_first_name data),
                     cu_last_name = the (p_last_name data),
                     cu_email = the (p_email data),
                     cu_phone_number = the (p_phone_number data),
                     cu_birthday = the (p_birthday data),
                     cu_update_date = the (p_update_date data)\<rparr>
         in Inr (self\<lparr>cu_update_date := Some today\<rparr>)))"

section \<open>Calls and queries\<close>

text \<open>
  Python binds the positional arguments of a call to the parameters in order, whatever
  their kind, and raises \<open>TypeError\<close> when their number does not fit. The functions of
  the contact repository therefore take the list of the values they are called with.
  \<open>VSession\<close> is the request's database session; the state it reads and commits to is
  passed beside it.
\<close>

datatype pyval =
    VInt int
  | VUser user
  | VSession
  | VContactSchema ContactSchema
  | VContactUpdateSchema ContactUpdateSchema

definition bind_err :: "error + 'a \<Rightarrow> ('a \<Rightarrow> error + 'b) \<Rightarrow> error + 'b" where
  "bind_err m f = (case m of Inl e \<Rightarrow> Inl e | Inr x \<Rightarrow> f x)"

text \<open>
  A \<open>select(Contact)\<close> statement: its criteria, its OFFSET and its LIMIT.
\<close>

record select_stmt =
  whereclause :: "(contact \<Rightarrow> bool) list"
  offset_clause :: "int option"
  limit_clause :: "int option"

definition select_Contact :: select_stmt where
  "select_Contact = \<lparr>whereclause = [], offset_clause = None, limit_clause = None\<rparr>"

text \<open>
  \<open>filter_by(**kwargs)\<close> turns each keyword into an equality on the attribute of that
  name: \<open>id\<close> is the primary key, \<open>user\<close> the relationship, which compares the foreign
  key with the primary key of a mapped \<open>User\<close> and refuses any other value
  (\<open>ArgumentError\<close>); an unknown name is an \<open>InvalidRequestError\<close>.
\<close>

definition criterion :: "string \<times> pyval \<Rightarrow> error + (contact \<Rightarrow> bool)" where
  "criterion kv =
     (if fst kv = ''id'' then Inr (\<lambda>c. VInt (c_id c) = snd kv)
      else if fst kv = ''user'' then
        (case snd kv of
           VUser u \<Rightarrow> Inr (\<lambda>c. user_id c = Some (u_id u))
         | _ \<Rightarrow> Inl ArgumentError)
      else Inl InvalidRequestError)"

fun filter_by :: "(string \<times> pyval) list \<Rightarrow> select_stmt \<Rightarrow> error + select_stmt" where
  "filter_by [] stmt = Inr stmt"
| "filter_by (kv # kwargs) stmt =
     bind_err (criterion kv)
       (\<lambda>p. filter_by kwargs (stmt\<lparr>whereclause := whereclause stmt @ [p]\<rparr>))"

text \<open>
  \<open>Select.where(*whereclause)\<close> takes positional criteria only: a call that passes a
  keyword argument raises \<open>TypeError\<close>, as any Python call with an unexpected keyword.
\<close>

definition where_clause ::
  "(contact \<Rightarrow> bool) list \<Rightarrow> (string \<times> pyval) list \<Rightarrow> select_stmt \<Rightarrow> error + select_stmt" where
  "where_clause criteria kwargs stmt =
     (if kwargs \<noteq> [] then Inl TypeError
      else Inr (stmt\<lparr>whereclause := whereclause stmt @ criteria\<rparr>))"

definition offset_by :: "pyval \<Rightarrow> select_stmt \<Rightarrow> error + select_stmt" where
  "offset_by v stmt =
     (case v of VInt n \<Rightarrow> Inr (stmt\<lparr>offset_clause := Some n\<rparr>) | _ \<Rightarrow> Inl ArgumentError)"

definition limit_by :: "pyval \<Rightarrow> select_stmt \<Rightarrow> error + select_stmt" where
  "limit_by v stmt =
     (case v of VInt n \<Rightarrow> Inr (stmt\<lparr>limit_clause := Some n\<rparr>) | _ \<Rightarrow> Inl ArgumentError)"

text \<open>
  \<open>db.execute(stmt)\<close>: a value that is not a session has no \<open>execute\<close>
  (\<open>AttributeError\<close>). The rows are those that meet every criterion, in storage
  order, after OFFSET and then LIMIT; the database refuses a negative OFFSET or LIMIT.
\<close>

definition execute :: "pyval \<Rightarrow> select_stmt \<Rightarrow> database \<Rightarrow> error + contact list" where
  "execute session stmt db =
     (case session of
        VSession \<Rightarrow>
          (let rows = filter (\<lambda>c. list_all (\<lambda>p. p c) (whereclause stmt)) (contacts db);
               off = (case offset_clause stmt of None \<Rightarrow> 0 | Some n \<Rightarrow> n)
           in if off < 0 then Inl DBAPIError
              else (case limit_clause stmt of
                      None \<Rightarrow> Inr (drop (nat off) rows)
                    | Some n \<Rightarrow>
                        if n < 0 then Inl DBAPIError
                        else Inr (take (nat n) (drop (nat off) rows))))
      | _ \<Rightarrow> Inl AttributeError)"

section \<open>Contact repository (src/repository/contact.py)\<close>

text \<open>\<open>get_contacts(limit, offset, db, user)\<close>.\<close>

definition repository_contacts_get_contacts :: "pyval list \<Rightarrow> database \<Rightarrow> error + contact list" where
  "repository_contacts_get_contacts args db =
     (case args of
        [limit, offset, session, usr] \<Rightarrow>
          bind_err (filter_by [(''user'', usr)] select_Contact) (\<lambda>s1.
          bind_err (offset_by offset s1) (\<lambda>s2.
          bind_err (limit_by limit s2) (\<lambda>sq.
          execute session sq db)))
      | _ \<Rightarrow> Inl TypeError)"

text \<open>
  \<open>get_contact(contact_id, db, user)\<close> builds its statement with
  \<open>select(Contact).where(Contact.id == contact_id, user=user)\<close>: one positional
  criterion and the keyword \<open>user\<close>.
\<close>

definition repository_contacts_get_contact :: "pyval list \<Rightarrow> database \<Rightarrow> error + contact option" where
  "repository_contacts_get_contact args db =
     (case args of
        [contact_id, session, usr] \<Rightarrow>
          bind_err (where_clause [\<lambda>c. VInt (c_id c) = contact_id] [(''user'', usr)] select_Contact)
            (\<lambda>sq.
          bind_err (execute session sq db) (\<lambda>rows.
          Inr (scalars_first rows)))
      | _ \<Rightarrow> Inl TypeError)"

text \<open>
  \<open>create_contact(body, db, user)\<close>. Reading the fields of \<open>body\<close> needs a
  \<open>ContactSchema\<close>, the relationship needs a \<open>User\<close> and \<open>db.add\<close> a session
  (\<open>AttributeError\<close> otherwise). The row takes the next identifier; \<open>update_date\<close> is
  not given and takes its column default \<open>date.today\<close>, as \<open>created_date\<close> does when it
  is null. The commit fails on the unique constraint of \<open>email\<close>.
\<close>

definition repository_contacts_create_contact ::
  "pyval list \<Rightarrow> date \<Rightarrow> database \<Rightarrow> (error + contact) \<times> database" where
  "repository_contacts_create_contact args today db =
     (case args of
        [VContactSchema body, VSession, VUser usr] \<Rightarrow>
          (let new_contact =
                 \<lparr>c_id = contact_seq db + 1,
                  first_name = cs_first_name body,
                  last_name = cs_last_name body,
                  c_email = cs_email body,
                  phone_number = cs_phone_number body,
                  birthday = cs_birthday body,
                  created_date =
                    (case cs_created_date body of None \<Rightarrow> Some today | Some d \<Rightarrow> Some d),
                  update_date = Some today,
                  user_id = Some (u_id usr)\<rparr>
           in if cs_email body \<in> set (map c_email (contacts db))
              then (Inl IntegrityError, db)
              else (Inr new_contact,
                    db\<lparr>contacts := contacts db @ [new_contact],
                       contact_seq := contact_seq db + 1\<rparr>))
      | [_, _, _] \<Rightarrow> (Inl AttributeError, db)
      | _ \<Rightarrow> (Inl TypeError, db))"

text \<open>
  \<open>update_contact(contact_id, body, db, user)\<close>. The commit fails when the new email
  is that of another contact.
\<close>

definition repository_contacts_update_contact ::
  "pyval list \<Rightarrow> database \<Rightarrow> (error + contact option) \<times> database" where
  "repository_contacts_update_contact args db =
     (case args of
        [contact_id, body, session, usr] \<Rightarrow>
          (case bind_err (filter_by [(''id'', contact_id), (''user'', usr)] select_Contact) (\<lambda>sq.
                bind_err (execute session sq db) scalar_one_or_none) of
             Inl e \<Rightarrow> (Inl e, db)
           | Inr None \<Rightarrow> (Inr None, db)
           | Inr (Some c) \<Rightarrow>
               (case body of
                  VContactUpdateSchema b \<Rightarrow>
                    (let c' = c\<lparr>first_name := cu_first_name b,
                                last_name := cu_last_name b,
                                c_email := cu_email b,
                                phone_number := cu_phone_number b,
                                birthday := cu_birthday b,
                                update_date := cu_update_date b\<rparr>
                     in if cu_email b \<in> set (map c_email (filter (\<lambda>x. c_id x \<noteq> c_id c) (contacts db)))
                        then (Inl IntegrityError, db)
                        else (Inr (Some c'),
                              db\<lparr>contacts := map (\<lambda>x. if c_id x = c_id c then c' else x)
                                                  (contacts db)\<rparr>))
                | _ \<Rightarrow> (Inl AttributeError, db)))
      | _ \<Rightarrow> (Inl TypeError, db))"

text \<open>\<open>remove_contact(contact_id, body, db, user)\<close>: four parameters; \<open>body\<close> is not read.\<close>

definition repository_contacts_remove_contact ::
  "pyval list \<Rightarrow> database \<Rightarrow> (error + contact option) \<times> database" where
  "repository_contacts_remove_contact args db =
     (case args of
        [contact_id, body, session, usr] \<Rightarrow>
          (case bind_err (filter_by [(''id'', contact_id), (''user'', usr)] select_Contact) (\<lambda>sq.
                bind_err (execute session sq db) scalar_one_or_none) of
             Inl e \<Rightarrow> (Inl e, db)
           | Inr None \<Rightarrow> (Inr None, db)
           | Inr (Some c) \<Rightarrow>
               (Inr (Some c), db\<lparr>contacts := filter (\<lambda>x. c_id x \<noteq> c_id c) (contacts db)\<rparr>))
      | _ \<Rightarrow> (Inl TypeError, db))"

text \<open>
  \<open>get_upcoming_birthdays(db)\<close>: \<open>today\<close> is the clock's date; the two \<open>where\<close> calls
  pass positional criteria only, and no criterion names the owner.
\<close>

definition repository_contacts_get_upcoming_birthdays ::
  "pyval list \<Rightarrow> date \<Rightarrow> database \<Rightarrow> error + contact list" where
  "repository_contacts_get_upcoming_birthdays args today db =
     (case args of
        [session] \<Rightarrow>
          (let end_date = today + 7
           in bind_err (where_clause [\<lambda>c. birthday c \<ge> today] [] select_Contact) (\<lambda>s1.
              bind_err (where_clause [\<lambda>c. birthday c \<le> end_date] [] s1) (\<lambda>sq.
              execute session sq db)))
      | _ \<Rightarrow> Inl TypeError)"

section \<open>Contact routes (src/routes/contact.py)\<close>

text \<open>
  Every handler below but the last receives the authenticated user from the
  \<open>get_current_user\<close> dependency and the session from \<open>get_db\<close>. Two handlers are
  registered for \<open>GET /contacts/\<close>; the router serves a request with the first one
  registered, \<open>read_contacts\<close>. The handlers return stored rows, whose fields the
  response model \<open>ContactResponse\<close> reads by name; the result is written as the row.
\<close>

definition routes_contact_read_contacts ::
  "int \<Rightarrow> int \<Rightarrow> user \<Rightarrow> database \<Rightarrow> error + contact list" where
  "routes_contact_read_contacts skip limit current_user db =
     repository_contacts_get_contacts [VInt skip, VInt limit, VUser current_user, VSession] db"

text \<open>Python's slices \<open>xs[i:]\<close> and \<open>xs[:j]\<close>; a negative index counts from the end.\<close>

definition slice_from :: "'a list \<Rightarrow> int \<Rightarrow> 'a list" where
  "slice_from xs i = (if i < 0 then drop (nat (int (length xs) + i)) xs else drop (nat i) xs)"

definition slice_upto :: "'a list \<Rightarrow> int \<Rightarrow> 'a list" where
  "slice_upto xs j = (if j < 0 then take (nat (int (length xs) + j)) xs else take (nat j) xs)"

definition routes_contact_get_all ::
  "int \<Rightarrow> int \<Rightarrow> user \<Rightarrow> database \<Rightarrow> error + contact list" where
  "routes_contact_get_all limit offset usr db =
     bind_err (repository_contacts_get_contacts [VSession] db)
       (\<lambda>cs. Inr (slice_upto (slice_from cs offset) limit))"

text \<open>
  The path parameter \<open>contact_id\<close> is declared \<open>Path(ge=1)\<close>: a smaller value is
  refused before the handler runs (\<open>RequestValidationError\<close>, HTTP 422).
\<close>

definition routes_contact_get_contact :: "int \<Rightarrow> user \<Rightarrow> database \<Rightarrow> error + contact" where
  "routes_contact_get_contact contact_id usr db =
     (if contact_id < 1 then Inl RequestValidationError
      else
        (case repository_contacts_get_contact [VInt contact_id, VSession, VUser usr] db of
           Inl e \<Rightarrow> Inl e
         | Inr None \<Rightarrow> Inl (HTTPException 404 ''NOT FOUND'')
         | Inr (Some c) \<Rightarrow> Inr c))"

text \<open>
  \<open>create_contact\<close> and \<open>update_contact\<close> receive the body as a schema built from the
  request's fields; a body the schema refuses never reaches the handler.
\<close>

definition routes_contact_create_contact ::
  "date \<Rightarrow> payload \<Rightarrow> user \<Rightarrow> database \<Rightarrow> (error + contact) \<times> database" where
  "routes_contact_create_contact today data usr db =
     (case ContactSchema_init today data of
        Inl e \<Rightarrow> (Inl RequestValidationError, db)
      | Inr body \<Rightarrow>
          repository_contacts_create_contact [VContactSchema body, VSession, VUser usr] today db)"

definition routes_contact_update_contact ::
  "date \<Rightarrow> payload \<Rightarrow> int \<Rightarrow> user \<Rightarrow> database \<Rightarrow> (error + contact) \<times> database" where
  "routes_contact_update_contact today data contact_id usr db =
     (case ContactUpdateSchema_init today data of
        Inl e \<Rightarrow> (Inl RequestValidationError, db)
      | Inr body \<Rightarrow>
          if contact_id < 1 then (Inl RequestValidationError, db)
          else
            (case repository_contacts_update_contact
                    [VInt contact_id, VContactUpdateSchema body, VSession, VUser usr] db of
               (Inl e, db') \<Rightarrow> (Inl e, db')
             | (Inr None, db') \<Rightarrow> (Inl (HTTPException 404 ''NOT FOUND''), db')
             | (Inr (Some c), db') \<Rightarrow> (Inr c, db')))"

text \<open>
  \<open>delete_contact\<close> calls \<open>remove_contact(contact_id, db, user)\<close>: three arguments.
\<close>

definition routes_contact_delete_contact ::
  "int \<Rightarrow> user \<Rightarrow> database \<Rightarrow> (error + contact) \<times> database" where
  "routes_contact_delete_contact contact_id usr db =
     (if contact_id < 1 then (Inl RequestValidationError, db)
      else
        (case repository_contacts_remove_contact [VInt contact_id, VSession, VUser usr] db of
           (Inl e, db') \<Rightarrow> (Inl e, db')
         | (Inr None, db') \<Rightarrow> (Inl (HTTPException 404 ''NOT FOUND''), db')
         | (Inr (Some c), db') \<Rightarrow> (Inr c, db')))"

definition routes_contact_get_upcoming_birthdays :: "date \<Rightarrow> database \<Rightarrow> error + contact list" where
  "routes_contact_get_upcoming_birthdays today db =
     repository_contacts_get_upcoming_birthdays [VSession] today db"

text \<open>Whether a result is a list that holds a given row.\<close>

definition returned_by :: "error + 'a list \<Rightarrow> 'a \<Rightarrow> bool" where
  "returned_by r x = (case r of Inl e \<Rightarrow> False | Inr xs \<Rightarrow> x \<in> set xs)"

section \<open>Transitions of the stored state\<close>

text \<open>
  One step of the database: any function of the two repositories or any route handler
  that can commit, run on any arguments; the state after it is the step's target,
  whether the function returned or raised.
\<close>

inductive db_step :: "database \<Rightarrow> database \<Rightarrow> bool" where
  create_user: "db_step db (snd (repository_users_create_user gravatar body db))"
| update_token: "db_step db (repository_users_update_token usr token db)"
| confirmed_email: "db_step db (snd (repository_users_confirmed_email email db))"
| update_avatar: "db_step db (snd (repository_users_update_avatar email url db))"
| signup: "db_step db (snd (routes_auth_signup auth gravatar base_url body db))"
| login: "db_step db (snd (routes_auth_login auth form_username form_password db))"
| refresh_token: "db_step db (snd (routes_auth_refresh_token auth token db))"
| confirm: "db_step db (snd (routes_auth_confirmed_email auth token db))"
| create_contact: "db_step db (snd (repository_contacts_create_contact args today db))"
| update_contact: "db_step db (snd (repository_contacts_update_contact args db))"
| remove_contact: "db_step db (snd (repository_contacts_remove_contact args db))"
| route_create_contact: "db_step db (snd (routes_contact_create_contact today data usr db))"
| route_update_contact:
    "db_step db (snd (routes_contact_update_contact today data contact_id usr db))"
| route_delete_contact: "db_step db (snd (routes_contact_delete_contact contact_id usr db))"

text \<open>
  Every user that is confirmed before is stored, under the same identifier and email,
  and confirmed after.
\<close>

definition confirmed_kept :: "database \<Rightarrow> database \<Rightarrow> bool" where
  "confirmed_kept db db' =
     list_all (\<lambda>u. \<not> confirmed u \<or>
                 list_ex (\<lambda>u'. u_id u' = u_id u \<and> u_email u' = u_email u \<and> confirmed u') (users db'))
       (users db)"

section \<open>Example data\<close>

text \<open>A concrete authentication service and database, used to run the model.\<close>

definition example_auth :: auth_service where
  "example_auth =
     \<lparr>get_password_hash = (\<lambda>p. ''h:'' @ p),
      verify_password = (\<lambda>p h. h = ''h:'' @ p),
      create_access_token = (\<lambda>e. ''a:'' @ e),
      create_refresh_token = (\<lambda>e. ''r:'' @ e),
      decode_refresh_token =
        (\<lambda>t. if take 2 t = ''r:'' then Inr (drop 2 t)
             else Inl (HTTPException 401 ''Could not validate credentials'')),
      get_email_from_token = (\<lambda>t. Inr t)\<rparr>"

definition alice :: user where
  "alice = \<lparr>u_id = 1, username = ''alice'', u_email = ''a@x.org'', password = ''h:secret'',
             avatar = None, refresh_token = Some ''r:old'', confirmed = True\<rparr>"

definition bob :: user where
  "bob = \<lparr>u_id = 2, username = ''bobby'', u_email = ''b@x.org'', password = ''h:hunter'',
           avatar = None, refresh_token = None, confirmed = False\<rparr>"

definition example_db :: database where
  "example_db = \<lparr>users = [alice, bob], contacts = [], user_seq = 2, contact_seq = 0\<rparr>"

definition example_gravatar :: "string \<Rightarrow> string option" where
  "example_gravatar e = Some (''https://www.gravatar.com/avatar/'' @ e)"

definition example_payload :: payload where
  "example_payload =
     \<lparr>p_first_name = Some ''Ann'', p_last_name = Some ''Lee'', p_email = Some ''ann@x.org'',
      p_phone_number = Some ''555-0100'', p_birthday = Some (ymd2ord 1990 5 17),
      p_created_date = Some (Some (ymd2ord 2000 1 1)),
      p_update_date = Some (Some (ymd2ord 2000 1 1))\<rparr>"

definition january_contact :: contact where
  "january_contact =
     \<lparr>c_id = 7, first_name = ''Jan'', last_name = ''Novak'', c_email = ''jan@x.org'',
      phone_number = ''555-0101'', birthday = ymd2ord 2027 1 2,
      created_date = Some (ymd2ord 2026 12 1), update_date = Some (ymd2ord 2026 12 1),
      user_id = Some 2\<rparr>"

definition december_db :: database where
  "december_db = \<lparr>users = [alice, bob], contacts = [january_contact],
                   user_seq = 2, contact_seq = 7\<rparr>"

definition born_1990 :: contact where
  "born_1990 = january_contact\<lparr>c_id := 8, c_email := ''old@x.org'', birthday := ymd2ord 1990 1 2\<rparr>"

definition ann :: contact where
  "ann = \<lparr>c_id = 1, first_name = ''Ann'', last_name = ''Lee'', c_email = ''ann@x.org'',
           phone_number = ''555-0100'', birthday = ymd2ord 1990 5 17,
           created_date = Some (ymd2ord 2026 11 3), update_date = Some (ymd2ord 2026 11 3),
           user_id = Some 1\<rparr>"

definition contacts_db :: database where
  "contacts_db = \<lparr>users = [alice, bob], contacts = [ann], user_seq = 2, contact_seq = 1\<rparr>"

section \<open>Lookup by email under the unique constraint\<close>

lemma filter_distinct_key:
  "distinct (map f xs) \<Longrightarrow>
   filter (\<lambda>x. f x = k) xs = (case find (\<lambda>x. f x = k) xs of None \<Rightarrow> [] | Some x \<Rightarrow> [x])"
proof (induction xs)
  case Nil
  then show ?case by simp
next
  case (Cons a xs)
  show ?case
  proof (cases "f a = k")
    case True
    with Cons.prems have "\<forall>x\<in>set xs. f x \<noteq> k" by (auto simp: image_iff)
    then have "filter (\<lambda>x. f x = k) xs = []" by (simp add: filter_empty_conv)
    with True show ?thesis by simp
  next
    case False
    with Cons show ?thesis by simp
  qed
qed

lemma get_user_by_email_find:
  "unique_emails db \<Longrightarrow>
   repository_users_get_user_by_email em db = Inr (find (\<lambda>u. u_email u = em) (users db))"
  unfolding repository_users_get_user_by_email_def unique_emails_def
  by (simp add: filter_distinct_key scalar_one_or_none_def split: option.splits)

lemma find_unique_Some:
  "distinct (map f xs) \<Longrightarrow> x \<in> set xs \<Longrightarrow> f x = k \<Longrightarrow> find (\<lambda>x. f x = k) xs = Some x"
proof (induction xs)
  case Nil
  then show ?case by simp
next
  case (Cons a xs)
  then show ?case by (cases "a = x") (auto simp: image_iff)
qed

lemma get_user_by_email_member:
  "unique_emails db \<Longrightarrow> u \<in> set (users db) \<Longrightarrow>
   repository_users_get_user_by_email (u_email u) db = Inr (Some u)"
  by (simp add: get_user_by_email_find find_unique_Some unique_emails_def)

lemma get_user_by_email_absent:
  "\<forall>u\<in>set (users db). u_email u \<noteq> em \<Longrightarrow>
   repository_users_get_user_by_email em db = Inr None"
  unfolding repository_users_get_user_by_email_def scalar_one_or_none_def
  by (simp add: filter_empty_conv[THEN iffD2])

lemma update_token_lookup:
  "unique_emails db \<Longrightarrow> u \<in> set (users db) \<Longrightarrow>
   repository_users_get_user_by_email (u_email u) (repository_users_update_token u tok db)
     = Inr (Some (u\<lparr>refresh_token := tok\<rparr>))"
proof -
  assume uniq: "unique_emails db" and mem: "u \<in> set (users db)"
  let ?g = "\<lambda>x. if u_id x = u_id u then x\<lparr>refresh_token := tok\<rparr> else x"
  have keep: "\<And>x. u_email (?g x) = u_email x" by simp
  have "filter (\<lambda>x. u_email x = u_email u) (map ?g (users db))
          = map ?g (filter (\<lambda>x. u_email x = u_email u) (users db))"
    by (simp add: filter_map comp_def)
  also have "filter (\<lambda>x. u_email x = u_email u) (users db) = [u]"
    using uniq mem by (simp add: filter_distinct_key find_unique_Some unique_emails_def)
  finally show ?thesis
    by (simp add: repository_users_get_user_by_email_def repository_users_update_token_def
        scalar_one_or_none_def)
qed

lemma example_db_unique: "unique_emails example_db"
  by (simp add: unique_emails_def example_db_def alice_def bob_def)

lemma alice_in: "alice \<in> set (users example_db)" by (simp add: example_db_def)
lemma bob_in: "bob \<in> set (users example_db)" by (simp add: example_db_def)

subsection \<open>Login\<close>

lemma login_absent:
  "\<forall>u\<in>set (users db). u_email u \<noteq> em \<Longrightarrow>
   routes_auth_login auth em pw db = (Inl (HTTPException 401 ''Invalid email''), db)"
  by (simp add: routes_auth_login_def get_user_by_email_absent)

lemma login_found:
  "repository_users_get_user_by_email em db = Inr (Some u) \<Longrightarrow>
   routes_auth_login auth em pw db =
     (if \<not> confirmed u then (Inl (HTTPException 401 ''Email not confirmed''), db)
      else if \<not> verify_password auth pw (password u)
      then (Inl (HTTPException 401 ''Invalid password''), db)
      else (Inr \<lparr>access_token = create_access_token auth (u_email u),
                  tm_refresh_token = create_refresh_token auth (u_email u),
                  token_type = ''bearer''\<rparr>,
            repository_users_update_token u (Some (create_refresh_token auth (u_email u))) db))"
  by (simp add: routes_auth_login_def Let_def)

lemma login_member:
  assumes "unique_emails db" and u: "u \<in> set (users db)"
  shows
   "(\<not> confirmed u \<longrightarrow>
        routes_auth_login auth (u_email u) pw db
          = (Inl (HTTPException 401 ''Email not confirmed''), db))
    \<and> (confirmed u \<and> \<not> verify_password auth pw (password u) \<longrightarrow>
        routes_auth_login auth (u_email u) pw db
          = (Inl (HTTPException 401 ''Invalid password''), db))
    \<and> (confirmed u \<and> verify_password auth pw (password u) \<longrightarrow>
        fst (routes_auth_login auth (u_email u) pw db)
          = Inr \<lparr>access_token = create_access_token auth (u_email u),
                 tm_refresh_token = create_refresh_token auth (u_email u),
                 token_type = ''bearer''\<rparr>
      \<and> repository_users_get_user_by_email (u_email u)
            (snd (routes_auth_login auth (u_email u) pw db))
          = Inr (Some (u\<lparr>refresh_token := Some (create_refresh_token auth (u_email u))\<rparr>)))"
  by (simp add: login_found[OF get_user_by_email_member[OF assms]] update_token_lookup[OF assms])

lemma login_success_iff:
  assumes "unique_emails db"
  shows "(\<exists>t. fst (routes_auth_login auth em pw db) = Inr t) \<longleftrightarrow>
         (\<exists>u\<in>set (users db). u_email u = em \<and> confirmed u \<and> verify_password auth pw (password u))"
proof (cases "find (\<lambda>u. u_email u = em) (users db)")
  case None
  then have no: "\<forall>u\<in>set (users db). u_email u \<noteq> em" by (simp add: find_None_iff)
  then show ?thesis by (auto simp: login_absent)
next
  case (Some u)
  then have u: "u \<in> set (users db)" and e: "u_email u = em"
    by (auto simp: find_Some_iff)
  have only: "v = u" if "v \<in> set (users db)" "u_email v = em" for v
    using find_unique_Some[of u_email "users db" v em] assms Some that
    by (simp add: unique_emails_def)
  have look: "repository_users_get_user_by_email em db = Inr (Some u)"
    using get_user_by_email_find[OF assms] Some by simp
  show ?thesis
  proof
    assume "\<exists>t. fst (routes_auth_login auth em pw db) = Inr t"
    then have "confirmed u \<and> verify_password auth pw (password u)"
      by (auto simp: login_found[OF look] split: if_splits)
    with u e show "\<exists>u\<in>set (users db). u_email u = em \<and> confirmed u \<and> verify_password auth pw (password u)"
      by blast
  next
    assume "\<exists>u\<in>set (users db). u_email u = em \<and> confirmed u \<and> verify_password auth pw (password u)"
    then obtain v where "v \<in> set (users db)" "u_email v = em" "confirmed v"
      "verify_password auth pw (password v)" by blast
    with only have "confirmed u \<and> verify_password auth pw (password u)" by blast
    then show "\<exists>t. fst (routes_auth_login auth em pw db) = Inr t"
      by (simp add: login_found[OF look])
  qed
qed

text \<open>
  C6. Login fails with HTTP 401 when the email matches no stored user, when the matched
  user is not confirmed, and when the password does not verify, each on its own; it
  succeeds exactly when none of the three holds, and then returns the new token pair
  and stores the new refresh token on the user.
\<close>

theorem login_cases:
  assumes "unique_emails db"
  shows
   "((\<forall>u\<in>set (users db). u_email u \<noteq> em) \<longrightarrow>
        routes_auth_login auth em pw db = (Inl (HTTPException 401 ''Invalid email''), db))
    \<and> (\<forall>u\<in>set (users db). u_email u = em \<longrightarrow>
         (\<not> confirmed u \<longrightarrow>
            routes_auth_login auth em pw db = (Inl (HTTPException 401 ''Email not confirmed''), db))
       \<and> (confirmed u \<and> \<not> verify_password auth pw (password u) \<longrightarrow>
            routes_auth_login auth em pw db = (Inl (HTTPException 401 ''Invalid password''), db))
       \<and> (confirmed u \<and> verify_password auth pw (password u) \<longrightarrow>
            fst (routes_auth_login auth em pw db)
              = Inr \<lparr>access_token = create_access_token auth em,
                     tm_refresh_token = create_refresh_token auth em,
                     token_type = ''bearer''\<rparr>
          \<and> repository_users_get_user_by_email em (snd (routes_auth_login auth em pw db))
              = Inr (Some (u\<lparr>refresh_token := Some (create_refresh_token auth em)\<rparr>))))
    \<and> ((\<exists>t. fst (routes_auth_login auth em pw db) = Inr t) \<longleftrightarrow>
         (\<exists>u\<in>set (users db). u_email u = em \<and> confirmed u \<and> verify_password auth pw (password u)))"
proof -
  have absent: "(\<forall>u\<in>set (users db). u_email u \<noteq> em) \<longrightarrow>
        routes_auth_login auth em pw db = (Inl (HTTPException 401 ''Invalid email''), db)"
    using login_absent by blast
  have found: "\<forall>u\<in>set (users db). u_email u = em \<longrightarrow>
         (\<not> confirmed u \<longrightarrow>
            routes_auth_login auth em pw db = (Inl (HTTPException 401 ''Email not confirmed''), db))
       \<and> (confirmed u \<and> \<not> verify_password auth pw (password u) \<longrightarrow>
            routes_auth_login auth em pw db = (Inl (HTTPException 401 ''Invalid password''), db))
       \<and> (confirmed u \<and> verify_password auth pw (password u) \<longrightarrow>
            fst (routes_auth_login auth em pw db)
              = Inr \<lparr>access_token = create_access_token auth em,
                     tm_refresh_token = create_refresh_token auth em,
                     token_type = ''bearer''\<rparr>
          \<and> repository_users_get_user_by_email em (snd (routes_auth_login auth em pw db))
              = Inr (Some (u\<lparr>refresh_token := Some (create_refresh_token auth em)\<rparr>)))"
  proof (intro ballI impI)
    fix u assume u: "u \<in> set (users db)" and e: "u_email u = em"
    from login_member[OF assms u, of auth pw] show
      "(\<not> confirmed u \<longrightarrow>
            routes_auth_login auth em pw db = (Inl (HTTPException 401 ''Email not confirmed''), db))
       \<and> (confirmed u \<and> \<not> verify_password auth pw (password u) \<longrightarrow>
            routes_auth_login auth em pw db = (Inl (HTTPException 401 ''Invalid password''), db))
       \<and> (confirmed u \<and> verify_password auth pw (password u) \<longrightarrow>
            fst (routes_auth_login auth em pw db)
              = Inr \<lparr>access_token = create_access_token auth em,
                     tm_refresh_token = create_refresh_token auth em,
                     token_type = ''bearer''\<rparr>
          \<and> repository_users_get_user_by_email em (snd (routes_auth_login auth em pw db))
              = Inr (Some (u\<lparr>refresh_token := Some (create_refresh_token auth em)\<rparr>)))"
      unfolding e .
  qed
  from absent found login_success_iff[OF assms] show ?thesis by blast
qed

theorem login_cases_witness:
  "unique_emails example_db
   \<and> routes_auth_login example_auth ''c@x.org'' ''secret'' example_db
       = (Inl (HTTPException 401 ''Invalid email''), example_db)
   \<and> routes_auth_login example_auth ''b@x.org'' ''hunter'' example_db
       = (Inl (HTTPException 401 ''Email not confirmed''), example_db)
   \<and> routes_auth_login example_auth ''a@x.org'' ''wrong'' example_db
       = (Inl (HTTPException 401 ''Invalid password''), example_db)
   \<and> fst (routes_auth_login example_auth ''a@x.org'' ''secret'' example_db)
       = Inr \<lparr>access_token = ''a:a@x.org'', tm_refresh_token = ''r:a@x.org'',
              token_type = ''bearer''\<rparr>
   \<and> repository_users_get_user_by_email ''a@x.org''
         (snd (routes_auth_login example_auth ''a@x.org'' ''secret'' example_db))
       = Inr (Some (alice\<lparr>refresh_token := Some ''r:a@x.org''\<rparr>))"
proof -
  have c: "\<forall>u\<in>set (users example_db). u_email u \<noteq> ''c@x.org''"
    by (simp add: example_db_def alice_def bob_def)
  note t = login_cases[OF example_db_unique]
  from t[of "''c@x.org''" example_auth "''secret''"] c
  have 1: "routes_auth_login example_auth ''c@x.org'' ''secret'' example_db
       = (Inl (HTTPException 401 ''Invalid email''), example_db)" by blast
  from t[of "''b@x.org''" example_auth "''hunter''"] bob_in
  have 2: "routes_auth_login example_auth ''b@x.org'' ''hunter'' example_db
       = (Inl (HTTPException 401 ''Email not confirmed''), example_db)"
    by (simp add: bob_def)
  from t[of "''a@x.org''" example_auth "''wrong''"] alice_in
  have 3: "routes_auth_login example_auth ''a@x.org'' ''wrong'' example_db
       = (Inl (HTTPException 401 ''Invalid password''), example_db)"
    by (simp add: alice_def example_auth_def)
  from t[of "''a@x.org''" example_auth "''secret''"] alice_in
  have 4: "fst (routes_auth_login example_auth ''a@x.org'' ''secret'' example_db)
       = Inr \<lparr>access_token = ''a:a@x.org'', tm_refresh_token = ''r:a@x.org'',
              token_type = ''bearer''\<rparr>
     \<and> repository_users_get_user_by_email ''a@x.org''
         (snd (routes_auth_login example_auth ''a@x.org'' ''secret'' example_db))
       = Inr (Some (alice\<lparr>refresh_token := Some ''r:a@x.org''\<rparr>))"
    by (simp add: alice_def example_auth_def)
  from example_db_unique 1 2 3 4 show ?thesis by blast
qed

subsection \<open>Refreshing a token\<close>

lemma refresh_found:
  "decode_refresh_token auth token = Inr em \<Longrightarrow>
   repository_users_get_user_by_email em db = Inr (Some u) \<Longrightarrow>
   routes_auth_refresh_token auth token db =
     (if refresh_token u \<noteq> Some token
      then (Inl (HTTPException 401 ''Invalid refresh token''),
            repository_users_update_token u None db)
      else (Inr \<lparr>access_token = create_access_token auth em,
                  tm_refresh_token = create_refresh_token auth em,
                  token_type = ''bearer''\<rparr>,
            repository_users_update_token u (Some (create_refresh_token auth em)) db))"
  by (simp add: routes_auth_refresh_token_def Let_def)

text \<open>
  C7. For a refresh request whose token decodes to the email of a stored user: when the
  presented token differs from the stored one, the stored token is cleared and the
  request fails with HTTP 401; when it is the stored one, a new token pair is returned
  and the new refresh token is stored on the user.
\<close>

theorem refresh_token_match_or_revoke:
  assumes uniq: "unique_emails db"
    and dec: "decode_refresh_token auth token = Inr (u_email u)"
    and u: "u \<in> set (users db)"
  shows
   "(refresh_token u \<noteq> Some token \<longrightarrow>
       fst (routes_auth_refresh_token auth token db)
         = Inl (HTTPException 401 ''Invalid refresh token'')
     \<and> repository_users_get_user_by_email (u_email u)
           (snd (routes_auth_refresh_token auth token db))
         = Inr (Some (u\<lparr>refresh_token := None\<rparr>)))
    \<and> (refresh_token u = Some token \<longrightarrow>
       fst (routes_auth_refresh_token auth token db)
         = Inr \<lparr>access_token = create_access_token auth (u_email u),
                tm_refresh_token = create_refresh_token auth (u_email u),
                token_type = ''bearer''\<rparr>
     \<and> repository_users_get_user_by_email (u_email u)
           (snd (routes_auth_refresh_token auth token db))
         = Inr (Some (u\<lparr>refresh_token := Some (create_refresh_token auth (u_email u))\<rparr>)))"
  by (simp add: refresh_found[OF dec get_user_by_email_member[OF uniq u]]
      update_token_lookup[OF uniq u])

theorem refresh_token_match_or_revoke_witness:
  "unique_emails example_db
   \<and> fst (routes_auth_refresh_token example_auth ''r:a@x.org'' example_db)
       = Inl (HTTPException 401 ''Invalid refresh token'')
   \<and> repository_users_get_user_by_email ''a@x.org''
         (snd (routes_auth_refresh_token example_auth ''r:a@x.org'' example_db))
       = Inr (Some (alice\<lparr>refresh_token := None\<rparr>))
   \<and> fst (routes_auth_refresh_token example_auth ''r:a@x.org''
            (repository_users_update_token alice (Some ''r:a@x.org'') example_db))
       = Inr \<lparr>access_token = ''a:a@x.org'', tm_refresh_token = ''r:a@x.org'',
              token_type = ''bearer''\<rparr>"
proof -
  have d: "decode_refresh_token example_auth ''r:a@x.org'' = Inr (u_email alice)"
    by (simp add: example_auth_def alice_def)
  from refresh_token_match_or_revoke[OF example_db_unique d alice_in]
  have 1: "fst (routes_auth_refresh_token example_auth ''r:a@x.org'' example_db)
       = Inl (HTTPException 401 ''Invalid refresh token'')
   \<and> repository_users_get_user_by_email ''a@x.org''
         (snd (routes_auth_refresh_token example_auth ''r:a@x.org'' example_db))
       = Inr (Some (alice\<lparr>refresh_token := None\<rparr>))"
    by (simp add: alice_def)
  let ?db = "repository_users_update_token alice (Some ''r:a@x.org'') example_db"
  let ?a = "alice\<lparr>refresh_token := Some ''r:a@x.org''\<rparr>"
  have uq: "unique_emails ?db"
    by (simp add: unique_emails_def repository_users_update_token_def example_db_def
        alice_def bob_def)
  have mem: "?a \<in> set (users ?db)"
    by (simp add: repository_users_update_token_def example_db_def alice_def bob_def)
  have d2: "decode_refresh_token example_auth ''r:a@x.org'' = Inr (u_email ?a)"
    by (simp add: example_auth_def alice_def)
  from refresh_token_match_or_revoke[OF uq d2 mem]
  have 2: "fst (routes_auth_refresh_token example_auth ''r:a@x.org'' ?db)
       = Inr \<lparr>access_token = ''a:a@x.org'', tm_refresh_token = ''r:a@x.org'',
              token_type = ''bearer''\<rparr>"
    by (simp add: alice_def example_auth_def)
  from example_db_unique 1 2 show ?thesis by blast
qed

text \<open>
  C10. When the token decodes to an email that no stored user has, the handler reads
  an attribute of the absent user and raises \<open>AttributeError\<close>, with the state
  unchanged; it does not answer HTTP 401. The 401 of the mismatch branch is reached
  only when a user with that email is stored.
\<close>

theorem refresh_token_absent_user:
  assumes dec: "decode_refresh_token auth token = Inr em"
  shows
   "((\<forall>u\<in>set (users db). u_email u \<noteq> em) \<longrightarrow>
       routes_auth_refresh_token auth token db = (Inl AttributeError, db))
    \<and> (fst (routes_auth_refresh_token auth token db)
          = Inl (HTTPException 401 ''Invalid refresh token'') \<longrightarrow>
        (\<exists>u\<in>set (users db). u_email u = em \<and> refresh_token u \<noteq> Some token))"
proof (intro conjI impI)
  assume "\<forall>u\<in>set (users db). u_email u \<noteq> em"
  then show "routes_auth_refresh_token auth token db = (Inl AttributeError, db)"
    by (simp add: routes_auth_refresh_token_def dec get_user_by_email_absent)
next
  assume r: "fst (routes_auth_refresh_token auth token db)
          = Inl (HTTPException 401 ''Invalid refresh token'')"
  show "\<exists>u\<in>set (users db). u_email u = em \<and> refresh_token u \<noteq> Some token"
  proof (cases "repository_users_get_user_by_email em db")
    case (Inl e)
    then have "e = MultipleResultsFound"
      by (auto simp: repository_users_get_user_by_email_def scalar_one_or_none_def
          split: list.splits)
    with r Inl show ?thesis by (simp add: routes_auth_refresh_token_def dec)
  next
    case (Inr r')
    show ?thesis
    proof (cases r')
      case None
      with r Inr show ?thesis by (simp add: routes_auth_refresh_token_def dec)
    next
      case (Some u)
      with Inr have "filter (\<lambda>u. u_email u = em) (users db) = [u]"
        by (auto simp: repository_users_get_user_by_email_def scalar_one_or_none_def
            split: list.splits)
      then have "u \<in> set (filter (\<lambda>u. u_email u = em) (users db))" by simp
      then have m: "u \<in> set (users db)" "u_email u = em" by auto
      from r Inr Some have "refresh_token u \<noteq> Some token"
        by (auto simp: refresh_found[OF dec] Let_def split: if_splits)
      with m show ?thesis by blast
    qed
  qed
qed

theorem refresh_token_absent_user_witness:
  "decode_refresh_token example_auth ''r:c@x.org'' = Inr ''c@x.org''
   \<and> routes_auth_refresh_token example_auth ''r:c@x.org'' example_db
       = (Inl AttributeError, example_db)
   \<and> decode_refresh_token example_auth ''r:a@x.org'' = Inr ''a@x.org''
   \<and> fst (routes_auth_refresh_token example_auth ''r:a@x.org'' example_db)
       = Inl (HTTPException 401 ''Invalid refresh token'')
   \<and> (\<exists>u\<in>set (users example_db).
         u_email u = ''a@x.org'' \<and> refresh_token u \<noteq> Some ''r:a@x.org'')"
proof -
  have d: "decode_refresh_token example_auth ''r:c@x.org'' = Inr ''c@x.org''"
    by (simp add: example_auth_def)
  have c: "\<forall>u\<in>set (users example_db). u_email u \<noteq> ''c@x.org''"
    by (simp add: example_db_def alice_def bob_def)
  have d': "decode_refresh_token example_auth ''r:a@x.org'' = Inr ''a@x.org''"
    by (simp add: example_auth_def)
  have r: "fst (routes_auth_refresh_token example_auth ''r:a@x.org'' example_db)
       = Inl (HTTPException 401 ''Invalid refresh token'')"
    by (simp add: routes_auth_refresh_token_def example_auth_def example_db_def alice_def
        bob_def repository_users_get_user_by_email_def scalar_one_or_none_def)
  from refresh_token_absent_user[OF d, of example_db] c
    refresh_token_absent_user[OF d', of example_db] r d d'
  show ?thesis by blast
qed

subsection \<open>Signup\<close>

lemma create_user_fresh:
  "\<forall>u\<in>set (users db). u_email u \<noteq> us_email body \<Longrightarrow>
   repository_users_create_user gravatar body db =
     (let new_user = \<lparr>u_id = user_seq db + 1, username = us_username body,
                      u_email = us_email body, password = us_password body,
                      avatar = gravatar (us_email body), refresh_token = None,
                      confirmed = False\<rparr>
      in (Inr new_user, db\<lparr>users := users db @ [new_user], user_seq := user_seq db + 1\<rparr>))"
  by (auto simp: repository_users_create_user_def Let_def)

text \<open>The handler: a stored email is refused and nothing is written.\<close>

lemma signup_handler_conflict:
  assumes uniq: "unique_emails db" and u: "u \<in> set (users db)"
    and e: "u_email u = us_email body"
  shows "routes_auth_signup_handler auth gravatar base_url body db
           = (Inl (HTTPException 409 ''Account already exists''), db)"
  using get_user_by_email_member[OF uniq u] e
  by (simp add: routes_auth_signup_handler_def)

text \<open>
  The handler: a fresh email stores one new user, with the hashed password, and the
  dictionary it returns holds that user under the key \<open>user\<close>.
\<close>

lemma signup_handler_fresh:
  assumes fresh: "\<forall>u\<in>set (users db). u_email u \<noteq> us_email body"
  shows "routes_auth_signup_handler auth gravatar base_url body db =
      (let new_user = \<lparr>u_id = user_seq db + 1, username = us_username body,
                       u_email = us_email body,
                       password = get_password_hash auth (us_password body),
                       avatar = gravatar (us_email body), refresh_token = None,
                       confirmed = False\<rparr>
       in (Inr \<lparr>result_dict = [(''user'', DUser new_user),
                                (''detail'', DStr ''User successfully created'')],
                 background_task = (us_email body, us_username body, base_url)\<rparr>,
           db\<lparr>users := users db @ [new_user], user_seq := user_seq db + 1\<rparr>))"
proof -
  let ?body = "body\<lparr>us_password := get_password_hash auth (us_password body)\<rparr>"
  from fresh have fresh': "\<forall>u\<in>set (users db). u_email u \<noteq> us_email ?body" by simp
  show ?thesis
    by (simp add: routes_auth_signup_handler_def get_user_by_email_absent[OF fresh]
        create_user_fresh[OF fresh'] Let_def)
qed

text \<open>
  The dictionary of the handler has the keys \<open>user\<close> and \<open>detail\<close>, and none of the
  four fields of the response model.
\<close>

lemma signup_dict_refused:
  "UserResponseSchema_validate [(''user'', x), (''detail'', y)] = Inl ResponseValidationError"
  by (simp add: UserResponseSchema_validate_def)

lemma signup_route_state:
  "snd (routes_auth_signup auth gravatar base_url body db)
     = snd (routes_auth_signup_handler auth gravatar base_url body db)"
  by (simp add: routes_auth_signup_def split: prod.splits sum.splits)

lemma signup_conflict:
  assumes "unique_emails db" and "u \<in> set (users db)" and "u_email u = us_email body"
  shows "routes_auth_signup auth gravatar base_url body db
           = (Inl (HTTPException 409 ''Account already exists''), db)"
  by (simp add: routes_auth_signup_def signup_handler_conflict[OF assms])

lemma signup_fresh:
  assumes fresh: "\<forall>u\<in>set (users db). u_email u \<noteq> us_email body"
  shows "routes_auth_signup auth gravatar base_url body db =
      (Inl ResponseValidationError,
       db\<lparr>users := users db @ [\<lparr>u_id = user_seq db + 1, username = us_username body,
                                 u_email = us_email body,
                                 password = get_password_hash auth (us_password body),
                                 avatar = gravatar (us_email body), refresh_token = None,
                                 confirmed = False\<rparr>],
          user_seq := user_seq db + 1\<rparr>)"
  by (simp add: routes_auth_signup_def signup_handler_fresh[OF fresh] Let_def
      signup_dict_refused)

lemma signup_never_201:
  "fst (routes_auth_signup auth gravatar base_url body db) \<noteq> Inr r"
proof (cases "routes_auth_signup_handler auth gravatar base_url body db")
  case (Pair res db')
  show ?thesis
  proof (cases res)
    case (Inl e)
    with Pair show ?thesis by (simp add: routes_auth_signup_def)
  next
    case (Inr sr)
    with Pair have "\<exists>x y. result_dict sr = [(''user'', x), (''detail'', y)]"
      by (auto simp: routes_auth_signup_handler_def Let_def
          split: sum.splits option.splits prod.splits)
    with Pair Inr show ?thesis
      by (auto simp: routes_auth_signup_def signup_dict_refused)
  qed
qed

text \<open>
  C5. A signup with an email that no stored user has: the handler stores the new user
  with the hashed password and returns \<open>{"user": ..., "detail": ...}\<close>, which the
  response model of the route refuses, so the route raises
  \<open>ResponseValidationError\<close> (HTTP 500) instead of answering 201 with the created user.
  A signup with a stored email fails with HTTP 409 and leaves the state as it was.
\<close>

theorem signup_fresh_email_raises:
  "routes_auth_signup example_auth example_gravatar ''http://localhost:8000/''
      \<lparr>us_username = ''carol'', us_email = ''c@x.org'', us_password = ''secret''\<rparr> example_db
     = (Inl ResponseValidationError,
        example_db\<lparr>users :=
            [alice, bob,
             \<lparr>u_id = 3, username = ''carol'', u_email = ''c@x.org'', password = ''h:secret'',
              avatar = Some ''https://www.gravatar.com/avatar/c@x.org'',
              refresh_token = None, confirmed = False\<rparr>],
          user_seq := 3\<rparr>)
   \<and> routes_auth_signup example_auth example_gravatar ''http://localhost:8000/''
        \<lparr>us_username = ''alice2'', us_email = ''a@x.org'', us_password = ''secret''\<rparr> example_db
       = (Inl (HTTPException 409 ''Account already exists''), example_db)"
proof -
  let ?new = "\<lparr>us_username = ''carol'', us_email = ''c@x.org'', us_password = ''secret''\<rparr>"
  let ?dup = "\<lparr>us_username = ''alice2'', us_email = ''a@x.org'', us_password = ''secret''\<rparr>"
  have c: "\<forall>u\<in>set (users example_db). u_email u \<noteq> us_email ?new"
    by (simp add: example_db_def alice_def bob_def)
  have a: "u_email alice = us_email ?dup" by (simp add: alice_def)
  from signup_fresh[OF c, of example_auth example_gravatar "''http://localhost:8000/''"]
    signup_conflict[OF example_db_unique alice_in a,
      of example_auth example_gravatar "''http://localhost:8000/''"]
  show ?thesis
    by (simp add: example_db_def example_auth_def example_gravatar_def)
qed

subsection \<open>Confirming an email\<close>

lemma mapped_row_lookup:
  assumes uniq: "unique_emails db" and u: "u \<in> set (users db)"
    and keep: "\<And>x. u_email (g x) = u_email x"
  shows "repository_users_get_user_by_email (u_email u) (db\<lparr>users := map g (users db)\<rparr>)
           = Inr (Some (g u))"
proof -
  have "filter (\<lambda>x. u_email x = u_email u) (map g (users db))
          = map g (filter (\<lambda>x. u_email x = u_email u) (users db))"
    by (simp add: filter_map comp_def keep)
  also have "filter (\<lambda>x. u_email x = u_email u) (users db) = [u]"
    using uniq u by (simp add: filter_distinct_key find_unique_Some unique_emails_def)
  finally show ?thesis
    by (simp add: repository_users_get_user_by_email_def scalar_one_or_none_def)
qed

lemma mapped_rows_unique:
  "unique_emails db \<Longrightarrow> (\<And>x. u_email (g x) = u_email x) \<Longrightarrow>
   unique_emails (db\<lparr>users := map g (users db)\<rparr>)"
  by (simp add: unique_emails_def comp_def)

lemma repo_confirmed_email_member:
  assumes uniq: "unique_emails db" and u: "u \<in> set (users db)"
  shows "repository_users_confirmed_email (u_email u) db =
           (Inr (), db\<lparr>users := map (\<lambda>x. if u_id x = u_id u then x\<lparr>confirmed := True\<rparr> else x)
                                   (users db)\<rparr>)"
  by (simp add: repository_users_confirmed_email_def get_user_by_email_member[OF uniq u])

lemma confirm_found:
  "get_email_from_token auth token = Inr em \<Longrightarrow>
   repository_users_get_user_by_email em db = Inr (Some u) \<Longrightarrow>
   routes_auth_confirmed_email auth token db =
     (if confirmed u then (Inr ''Your email is already confirmed'', db)
      else (case repository_users_confirmed_email em db of
              (Inl e, db') \<Rightarrow> (Inl e, db')
            | (Inr _, db') \<Rightarrow> (Inr ''Email confirmed'', db')))"
  by (simp add: routes_auth_confirmed_email_def)

lemma confirm_absent:
  "get_email_from_token auth token = Inr em \<Longrightarrow>
   \<forall>u\<in>set (users db). u_email u \<noteq> em \<Longrightarrow>
   routes_auth_confirmed_email auth token db
     = (Inl (HTTPException 400 ''Verification error''), db)"
  by (simp add: routes_auth_confirmed_email_def get_user_by_email_absent)

lemma confirm_member:
  assumes uniq: "unique_emails db" and u: "u \<in> set (users db)"
    and tok: "get_email_from_token auth token = Inr (u_email u)"
  shows "routes_auth_confirmed_email auth token db =
     (if confirmed u then (Inr ''Your email is already confirmed'', db)
      else (Inr ''Email confirmed'',
            db\<lparr>users := map (\<lambda>x. if u_id x = u_id u then x\<lparr>confirmed := True\<rparr> else x)
                            (users db)\<rparr>))"
  by (simp add: confirm_found[OF tok get_user_by_email_member[OF uniq u]]
      repo_confirmed_email_member[OF uniq u])

lemma confirm_twice:
  assumes uniq: "unique_emails db" and u: "u \<in> set (users db)"
    and tok: "get_email_from_token auth token = Inr (u_email u)"
  shows "routes_auth_confirmed_email auth token (snd (routes_auth_confirmed_email auth token db))
           = (Inr ''Your email is already confirmed'',
              snd (routes_auth_confirmed_email auth token db))"
proof (cases "confirmed u")
  case True
  then show ?thesis by (simp add: confirm_member[OF uniq u tok])
next
  case False
  let ?g = "\<lambda>x. if u_id x = u_id u then x\<lparr>confirmed := True\<rparr> else x"
  let ?db = "db\<lparr>users := map ?g (users db)\<rparr>"
  have keep: "\<And>x. u_email (?g x) = u_email x" by simp
  have look: "repository_users_get_user_by_email (u_email u) ?db = Inr (Some (?g u))"
    by (rule mapped_row_lookup[OF uniq u keep])
  have "routes_auth_confirmed_email auth token ?db
          = (Inr ''Your email is already confirmed'', ?db)"
    by (simp add: confirm_found[OF tok look])
  with False show ?thesis by (simp add: confirm_member[OF uniq u tok])
qed

subsection \<open>No step resets \<open>confirmed\<close>\<close>

lemma confirmed_kept_iff:
  "confirmed_kept db db' \<longleftrightarrow>
     (\<forall>u\<in>set (users db). confirmed u \<longrightarrow>
        (\<exists>u'\<in>set (users db'). u_id u' = u_id u \<and> u_email u' = u_email u \<and> confirmed u'))"
  by (auto simp: confirmed_kept_def list_all_iff list_ex_iff)

lemma confirmed_kept_refl: "confirmed_kept db db"
  by (auto simp: confirmed_kept_iff)

lemma confirmed_kept_trans:
  "confirmed_kept a b \<Longrightarrow> confirmed_kept b c \<Longrightarrow> confirmed_kept a c"
  unfolding confirmed_kept_iff by (metis (no_types, lifting))

lemma confirmed_kept_same_users: "users db' = users db \<Longrightarrow> confirmed_kept db db'"
  by (auto simp: confirmed_kept_iff)

lemma confirmed_kept_map:
  assumes "users db' = map g (users db) @ ys"
    and "\<And>x. u_id (g x) = u_id x \<and> u_email (g x) = u_email x \<and> (confirmed x \<longrightarrow> confirmed (g x))"
  shows "confirmed_kept db db'"
  unfolding confirmed_kept_iff
proof (intro ballI impI)
  fix u assume "u \<in> set (users db)" "confirmed u"
  with assms have "g u \<in> set (users db')" "u_id (g u) = u_id u" "u_email (g u) = u_email u"
    "confirmed (g u)" by auto
  then show "\<exists>u'\<in>set (users db'). u_id u' = u_id u \<and> u_email u' = u_email u \<and> confirmed u'"
    by blast
qed

lemma kept_create_user: "confirmed_kept db (snd (repository_users_create_user gravatar body db))"
proof (cases "us_email body \<in> set (map u_email (users db))")
  case True
  then show ?thesis
    by (simp add: repository_users_create_user_def Let_def confirmed_kept_refl)
next
  case False
  then show ?thesis
    by (intro confirmed_kept_map[where g = "\<lambda>x. x" and ys = "[\<lparr>u_id = user_seq db + 1,
          username = us_username body, u_email = us_email body, password = us_password body,
          avatar = gravatar (us_email body), refresh_token = None, confirmed = False\<rparr>]"])
       (simp_all add: repository_users_create_user_def Let_def)
qed

lemma kept_update_token: "confirmed_kept db (repository_users_update_token usr token db)"
  by (rule confirmed_kept_map[where ys = "[]"
        and g = "\<lambda>u. if u_id u = u_id usr then u\<lparr>refresh_token := token\<rparr> else u"])
     (simp_all add: repository_users_update_token_def)

lemma kept_repo_confirmed_email:
  "confirmed_kept db (snd (repository_users_confirmed_email email db))"
proof (cases "repository_users_get_user_by_email email db")
  case (Inl e)
  then show ?thesis by (simp add: repository_users_confirmed_email_def confirmed_kept_refl)
next
  case (Inr r)
  show ?thesis
  proof (cases r)
    case None
    with Inr show ?thesis
      by (simp add: repository_users_confirmed_email_def confirmed_kept_refl)
  next
    case (Some usr)
    have "confirmed_kept db
            (db\<lparr>users := map (\<lambda>u. if u_id u = u_id usr then u\<lparr>confirmed := True\<rparr> else u)
                            (users db)\<rparr>)"
      by (rule confirmed_kept_map[where ys = "[]"
            and g = "\<lambda>u. if u_id u = u_id usr then u\<lparr>confirmed := True\<rparr> else u"]) simp_all
    with Inr Some show ?thesis by (simp add: repository_users_confirmed_email_def)
  qed
qed

lemma kept_update_avatar:
  "confirmed_kept db (snd (repository_users_update_avatar email url db))"
  by (auto simp: repository_users_update_avatar_def confirmed_kept_refl
      split: sum.splits option.splits)

lemma kept_signup:
  "confirmed_kept db (snd (routes_auth_signup auth gravatar base_url body db))"
proof (cases "repository_users_get_user_by_email (us_email body) db")
  case (Inl e)
  then show ?thesis
    by (simp add: signup_route_state routes_auth_signup_handler_def confirmed_kept_refl)
next
  case (Inr r)
  show ?thesis
  proof (cases r)
    case (Some x)
    with Inr show ?thesis
      by (simp add: signup_route_state routes_auth_signup_handler_def confirmed_kept_refl)
  next
    case None
    let ?body = "body\<lparr>us_password := get_password_hash auth (us_password body)\<rparr>"
    have "snd (routes_auth_signup auth gravatar base_url body db)
            = snd (repository_users_create_user gravatar ?body db)"
      using Inr None
      by (simp add: signup_route_state routes_auth_signup_handler_def Let_def
          split: prod.splits sum.splits)
    then show ?thesis by (simp add: kept_create_user)
  qed
qed

lemma kept_login:
  "confirmed_kept db (snd (routes_auth_login auth form_username form_password db))"
  by (auto simp: routes_auth_login_def Let_def confirmed_kept_refl kept_update_token
      split: sum.splits option.splits)

lemma kept_refresh:
  "confirmed_kept db (snd (routes_auth_refresh_token auth token db))"
  by (auto simp: routes_auth_refresh_token_def Let_def confirmed_kept_refl kept_update_token
      split: sum.splits option.splits)

lemma kept_confirm:
  "confirmed_kept db (snd (routes_auth_confirmed_email auth token db))"
proof (cases "get_email_from_token auth token")
  case (Inl e)
  then show ?thesis by (simp add: routes_auth_confirmed_email_def confirmed_kept_refl)
next
  case (Inr em)
  show ?thesis
  proof (cases "repository_users_get_user_by_email em db")
    case (Inl e)
    with Inr show ?thesis by (simp add: routes_auth_confirmed_email_def confirmed_kept_refl)
  next
    case r: (Inr r)
    show ?thesis
    proof (cases r)
      case None
      with Inr r show ?thesis
        by (simp add: routes_auth_confirmed_email_def confirmed_kept_refl)
    next
      case (Some usr)
      have "snd (routes_auth_confirmed_email auth token db) = db
            \<or> snd (routes_auth_confirmed_email auth token db)
                = snd (repository_users_confirmed_email em db)"
        using r Some by (simp add: confirm_found[OF Inr] split: prod.splits sum.splits)
      then show ?thesis by (auto simp: confirmed_kept_refl kept_repo_confirmed_email)
    qed
  qed
qed

lemma users_create_contact:
  "users (snd (repository_contacts_create_contact args today db)) = users db"
  by (simp add: repository_contacts_create_contact_def Let_def
      split: list.splits pyval.splits)

lemma users_update_contact:
  "users (snd (repository_contacts_update_contact args db)) = users db"
  by (simp add: repository_contacts_update_contact_def Let_def
      split: list.splits pyval.splits sum.splits option.splits)

lemma users_remove_contact:
  "users (snd (repository_contacts_remove_contact args db)) = users db"
  by (simp add: repository_contacts_remove_contact_def
      split: list.splits sum.splits option.splits)

lemma users_route_create_contact:
  "users (snd (routes_contact_create_contact today data usr db)) = users db"
  by (simp add: routes_contact_create_contact_def users_create_contact split: sum.splits)

lemma users_route_update_contact:
  "users (snd (routes_contact_update_contact today data contact_id usr db)) = users db"
proof -
  have "snd (routes_contact_update_contact today data contact_id usr db) = db
        \<or> (\<exists>args. snd (routes_contact_update_contact today data contact_id usr db)
                    = snd (repository_contacts_update_contact args db))"
    unfolding routes_contact_update_contact_def
    by (cases "ContactUpdateSchema_init today data")
       (auto split: prod.splits sum.splits option.splits, (metis snd_conv)+)
  then show ?thesis by (auto simp: users_update_contact)
qed

lemma users_route_delete_contact:
  "users (snd (routes_contact_delete_contact contact_id usr db)) = users db"
proof -
  have "snd (routes_contact_delete_contact contact_id usr db) = db
        \<or> (\<exists>args. snd (routes_contact_delete_contact contact_id usr db)
                    = snd (repository_contacts_remove_contact args db))"
    unfolding routes_contact_delete_contact_def
    by (auto split: prod.splits sum.splits option.splits, (metis snd_conv)+)
  then show ?thesis by (auto simp: users_remove_contact)
qed

lemma db_step_keeps_confirmed: "db_step db db' \<Longrightarrow> confirmed_kept db db'"
proof (induction rule: db_step.induct)
  case (create_user db gravatar body)
  show ?case by (rule kept_create_user)
next
  case (update_token db usr token)
  show ?case by (rule kept_update_token)
next
  case (confirmed_email db email)
  show ?case by (rule kept_repo_confirmed_email)
next
  case (update_avatar db email url)
  show ?case by (rule kept_update_avatar)
next
  case (signup db auth gravatar base_url body)
  show ?case by (rule kept_signup)
next
  case (login db auth form_username form_password)
  show ?case by (rule kept_login)
next
  case (refresh_token db auth token)
  show ?case by (rule kept_refresh)
next
  case (confirm db auth token)
  show ?case by (rule kept_confirm)
next
  case (create_contact db args today)
  show ?case by (rule confirmed_kept_same_users[OF users_create_contact])
next
  case (update_contact db args)
  show ?case by (rule confirmed_kept_same_users[OF users_update_contact])
next
  case (remove_contact db args)
  show ?case by (rule confirmed_kept_same_users[OF users_remove_contact])
next
  case (route_create_contact db today data usr)
  show ?case by (rule confirmed_kept_same_users[OF users_route_create_contact])
next
  case (route_update_contact db today data contact_id usr)
  show ?case by (rule confirmed_kept_same_users[OF users_route_update_contact])
next
  case (route_delete_contact db contact_id usr)
  show ?case by (rule confirmed_kept_same_users[OF users_route_delete_contact])
qed

lemma db_steps_keep_confirmed: "db_step\<^sup>*\<^sup>* db db' \<Longrightarrow> confirmed_kept db db'"
proof (induction rule: rtranclp_induct)
  case base
  show ?case by (rule confirmed_kept_refl)
next
  case (step y z)
  from step.IH db_step_keeps_confirmed[OF step.hyps(2)] show ?case
    by (rule confirmed_kept_trans)
qed

text \<open>
  C8. When the confirmation token resolves to no stored user the route fails with HTTP
  400 and changes nothing. When the user is already confirmed it returns the "already
  confirmed" message and changes nothing. Otherwise it sets \<open>confirmed\<close> on that user;
  a second confirmation then returns the "already confirmed" message and changes
  nothing. No sequence of steps of the two repositories and the routes takes a user
  that is confirmed to a state where that user is not.
\<close>

theorem confirmed_email_idempotent_monotonic:
  assumes uniq: "unique_emails db" and tok: "get_email_from_token auth token = Inr em"
  shows
   "((\<forall>u\<in>set (users db). u_email u \<noteq> em) \<longrightarrow>
       routes_auth_confirmed_email auth token db
         = (Inl (HTTPException 400 ''Verification error''), db))
    \<and> (\<forall>u\<in>set (users db). u_email u = em \<longrightarrow>
         (confirmed u \<longrightarrow>
            routes_auth_confirmed_email auth token db
              = (Inr ''Your email is already confirmed'', db))
       \<and> (\<not> confirmed u \<longrightarrow>
            fst (routes_auth_confirmed_email auth token db) = Inr ''Email confirmed''
          \<and> repository_users_get_user_by_email em
                (snd (routes_auth_confirmed_email auth token db))
              = Inr (Some (u\<lparr>confirmed := True\<rparr>)))
       \<and> routes_auth_confirmed_email auth token
              (snd (routes_auth_confirmed_email auth token db))
            = (Inr ''Your email is already confirmed'',
               snd (routes_auth_confirmed_email auth token db)))
    \<and> (\<forall>db1 db2. db_step\<^sup>*\<^sup>* db1 db2 \<longrightarrow> confirmed_kept db1 db2)"
proof (intro conjI)
  show "(\<forall>u\<in>set (users db). u_email u \<noteq> em) \<longrightarrow>
       routes_auth_confirmed_email auth token db
         = (Inl (HTTPException 400 ''Verification error''), db)"
    using confirm_absent[OF tok] by blast
next
  show "\<forall>u\<in>set (users db). u_email u = em \<longrightarrow>
         (confirmed u \<longrightarrow>
            routes_auth_confirmed_email auth token db
              = (Inr ''Your email is already confirmed'', db))
       \<and> (\<not> confirmed u \<longrightarrow>
            fst (routes_auth_confirmed_email auth token db) = Inr ''Email confirmed''
          \<and> repository_users_get_user_by_email em
                (snd (routes_auth_confirmed_email auth token db))
              = Inr (Some (u\<lparr>confirmed := True\<rparr>)))
       \<and> routes_auth_confirmed_email auth token
              (snd (routes_auth_confirmed_email auth token db))
            = (Inr ''Your email is already confirmed'',
               snd (routes_auth_confirmed_email auth token db))"
  proof (intro ballI impI)
    fix u assume u: "u \<in> set (users db)" and e: "u_email u = em"
    from tok e have tok': "get_email_from_token auth token = Inr (u_email u)" by simp
    let ?g = "\<lambda>x. if u_id x = u_id u then x\<lparr>confirmed := True\<rparr> else x"
    have keep: "\<And>x. u_email (?g x) = u_email x" by simp
    have look: "repository_users_get_user_by_email (u_email u) (db\<lparr>users := map ?g (users db)\<rparr>)
                  = Inr (Some (?g u))"
      by (rule mapped_row_lookup[OF uniq u keep])
    have a: "confirmed u \<longrightarrow>
            routes_auth_confirmed_email auth token db
              = (Inr ''Your email is already confirmed'', db)"
      by (simp add: confirm_member[OF uniq u tok'])
    have b: "\<not> confirmed u \<longrightarrow>
            fst (routes_auth_confirmed_email auth token db) = Inr ''Email confirmed''
          \<and> repository_users_get_user_by_email em
                (snd (routes_auth_confirmed_email auth token db))
              = Inr (Some (u\<lparr>confirmed := True\<rparr>))"
      using look e by (simp add: confirm_member[OF uniq u tok'])
    from a b confirm_twice[OF uniq u tok']
    show "(confirmed u \<longrightarrow>
            routes_auth_confirmed_email auth token db
              = (Inr ''Your email is already confirmed'', db))
       \<and> (\<not> confirmed u \<longrightarrow>
            fst (routes_auth_confirmed_email auth token db) = Inr ''Email confirmed''
          \<and> repository_users_get_user_by_email em
                (snd (routes_auth_confirmed_email auth token db))
              = Inr (Some (u\<lparr>confirmed := True\<rparr>)))
       \<and> routes_auth_confirmed_email auth token
              (snd (routes_auth_confirmed_email auth token db))
            = (Inr ''Your email is already confirmed'',
               snd (routes_auth_confirmed_email auth token db))"
      by blast
  qed
next
  show "\<forall>db1 db2. db_step\<^sup>*\<^sup>* db1 db2 \<longrightarrow> confirmed_kept db1 db2"
    using db_steps_keep_confirmed by blast
qed

theorem confirmed_email_idempotent_monotonic_witness:
  "unique_emails example_db
   \<and> get_email_from_token example_auth ''c@x.org'' = Inr ''c@x.org''
   \<and> routes_auth_confirmed_email example_auth ''c@x.org'' example_db
       = (Inl (HTTPException 400 ''Verification error''), example_db)
   \<and> routes_auth_confirmed_email example_auth ''a@x.org'' example_db
       = (Inr ''Your email is already confirmed'', example_db)
   \<and> fst (routes_auth_confirmed_email example_auth ''b@x.org'' example_db)
       = Inr ''Email confirmed''
   \<and> repository_users_get_user_by_email ''b@x.org''
         (snd (routes_auth_confirmed_email example_auth ''b@x.org'' example_db))
       = Inr (Some (bob\<lparr>confirmed := True\<rparr>))
   \<and> fst (routes_auth_confirmed_email example_auth ''b@x.org''
            (snd (routes_auth_confirmed_email example_auth ''b@x.org'' example_db)))
       = Inr ''Your email is already confirmed''
   \<and> db_step\<^sup>*\<^sup>* example_db
         (snd (routes_auth_confirmed_email example_auth ''b@x.org'' example_db))
   \<and> confirmed_kept example_db
         (snd (routes_auth_confirmed_email example_auth ''b@x.org'' example_db))"
proof -
  have t: "\<And>e. get_email_from_token example_auth e = Inr e"
    by (simp add: example_auth_def)
  note inst = confirmed_email_idempotent_monotonic[OF example_db_unique t]
  have c: "\<forall>u\<in>set (users example_db). u_email u \<noteq> ''c@x.org''"
    by (simp add: example_db_def alice_def bob_def)
  from inst[of "''c@x.org''"] c
  have 1: "routes_auth_confirmed_email example_auth ''c@x.org'' example_db
       = (Inl (HTTPException 400 ''Verification error''), example_db)" by blast
  from inst[of "''a@x.org''"] alice_in
  have 2: "routes_auth_confirmed_email example_auth ''a@x.org'' example_db
       = (Inr ''Your email is already confirmed'', example_db)"
    by (simp add: alice_def)
  from inst[of "''b@x.org''"] bob_in
  have 3: "fst (routes_auth_confirmed_email example_auth ''b@x.org'' example_db)
       = Inr ''Email confirmed''
   \<and> repository_users_get_user_by_email ''b@x.org''
         (snd (routes_auth_confirmed_email example_auth ''b@x.org'' example_db))
       = Inr (Some (bob\<lparr>confirmed := True\<rparr>))
   \<and> fst (routes_auth_confirmed_email example_auth ''b@x.org''
            (snd (routes_auth_confirmed_email example_auth ''b@x.org'' example_db)))
       = Inr ''Your email is already confirmed''"
    by (simp add: bob_def)
  have s: "db_step\<^sup>*\<^sup>* example_db
         (snd (routes_auth_confirmed_email example_auth ''b@x.org'' example_db))"
    by (rule r_into_rtranclp) (rule db_step.confirm)
  with inst[of "''b@x.org''"]
  have 4: "confirmed_kept example_db
         (snd (routes_auth_confirmed_email example_auth ''b@x.org'' example_db))"
    by blast
  from example_db_unique t[of "''c@x.org''"] 1 2 3 s 4 show ?thesis by blast
qed

subsection \<open>Dates forced by the schemas\<close>

lemma ContactSchema_init_created_date:
  "ContactSchema_init today data = Inr body \<Longrightarrow> cs_created_date body = Some today"
  by (auto simp: ContactSchema_init_def Let_def split: if_splits)

lemma ContactUpdateSchema_init_update_date:
  "ContactUpdateSchema_init today data = Inr body \<Longrightarrow> cu_update_date body = Some today"
  by (auto simp: ContactUpdateSchema_init_def Let_def split: if_splits)

lemma create_contact_stored:
  "repository_contacts_create_contact [VContactSchema body, VSession, VUser usr] today db
     = (Inr c, db') \<Longrightarrow>
   contacts db' = contacts db @ [c] \<and> user_id c = Some (u_id usr)
   \<and> created_date c = (case cs_created_date body of None \<Rightarrow> Some today | Some d \<Rightarrow> Some d)"
  by (auto simp: repository_contacts_create_contact_def Let_def split: if_splits)

lemma route_create_contact_stored:
  assumes "routes_contact_create_contact today data usr db = (Inr c, db')"
  shows "contacts db' = contacts db @ [c] \<and> user_id c = Some (u_id usr)
         \<and> created_date c = Some today"
proof (cases "ContactSchema_init today data")
  case (Inl e)
  with assms show ?thesis by (simp add: routes_contact_create_contact_def)
next
  case (Inr body)
  with assms have "repository_contacts_create_contact
      [VContactSchema body, VSession, VUser usr] today db = (Inr c, db')"
    by (simp add: routes_contact_create_contact_def)
  from create_contact_stored[OF this] ContactSchema_init_created_date[OF Inr]
  show ?thesis by simp
qed

lemma example_schema:
  "ContactSchema_init t example_payload =
     Inr \<lparr>cs_first_name = ''Ann'', cs_last_name = ''Lee'', cs_email = ''ann@x.org'',
          cs_phone_number = ''555-0100'', cs_birthday = ymd2ord 1990 5 17,
          cs_created_date = Some t\<rparr>"
  by (simp add: ContactSchema_init_def example_payload_def Let_def)

lemma example_update_schema:
  "ContactUpdateSchema_init t example_payload =
     Inr \<lparr>cu_first_name = ''Ann'', cu_last_name = ''Lee'', cu_email = ''ann@x.org'',
          cu_phone_number = ''555-0100'', cu_birthday = ymd2ord 1990 5 17,
          cu_update_date = Some t\<rparr>"
  by (simp add: ContactUpdateSchema_init_def example_payload_def Let_def)

lemma example_create:
  "routes_contact_create_contact t example_payload alice example_db =
     (Inr \<lparr>c_id = 1, first_name = ''Ann'', last_name = ''Lee'', c_email = ''ann@x.org'',
           phone_number = ''555-0100'', birthday = ymd2ord 1990 5 17,
           created_date = Some t, update_date = Some t, user_id = Some 1\<rparr>,
      example_db\<lparr>contacts :=
          [\<lparr>c_id = 1, first_name = ''Ann'', last_name = ''Lee'', c_email = ''ann@x.org'',
            phone_number = ''555-0100'', birthday = ymd2ord 1990 5 17,
            created_date = Some t, update_date = Some t, user_id = Some 1\<rparr>],
        contact_seq := 1\<rparr>)"
  by (simp add: routes_contact_create_contact_def example_schema
      repository_contacts_create_contact_def Let_def example_db_def alice_def)

text \<open>
  C9. Every \<open>ContactSchema\<close> that is constructed has \<open>created_date\<close> equal to the day of
  construction, and every \<open>ContactUpdateSchema\<close> has \<open>update_date\<close> equal to it, whatever
  value the caller supplied for the field; a contact stored by the create route has
  \<open>created_date\<close> equal to that day.
\<close>

theorem schema_dates_forced:
  "(\<forall>body. ContactSchema_init today data = Inr body \<longrightarrow> cs_created_date body = Some today)
   \<and> (\<forall>body. ContactUpdateSchema_init today data = Inr body \<longrightarrow>
         cu_update_date body = Some today)
   \<and> ContactSchema_init today (data\<lparr>p_created_date := Some v\<rparr>)
       = ContactSchema_init today (data\<lparr>p_created_date := Some w\<rparr>)
   \<and> ContactUpdateSchema_init today (data\<lparr>p_update_date := Some v\<rparr>)
       = ContactUpdateSchema_init today (data\<lparr>p_update_date := Some w\<rparr>)
   \<and> (\<forall>c db'. routes_contact_create_contact today data usr db = (Inr c, db') \<longrightarrow>
         contacts db' = contacts db @ [c] \<and> created_date c = Some today)"
proof (intro conjI allI impI)
  fix body assume "ContactSchema_init today data = Inr body"
  then show "cs_created_date body = Some today" by (rule ContactSchema_init_created_date)
next
  fix body assume "ContactUpdateSchema_init today data = Inr body"
  then show "cu_update_date body = Some today" by (rule ContactUpdateSchema_init_update_date)
next
  show "ContactSchema_init today (data\<lparr>p_created_date := Some v\<rparr>)
       = ContactSchema_init today (data\<lparr>p_created_date := Some w\<rparr>)"
    by (simp add: ContactSchema_init_def Let_def)
next
  show "ContactUpdateSchema_init today (data\<lparr>p_update_date := Some v\<rparr>)
       = ContactUpdateSchema_init today (data\<lparr>p_update_date := Some w\<rparr>)"
    by (simp add: ContactUpdateSchema_init_def Let_def)
next
  fix c db' assume "routes_contact_create_contact today data usr db = (Inr c, db')"
  from route_create_contact_stored[OF this]
  show "contacts db' = contacts db @ [c]" and "created_date c = Some today" by simp_all
qed

theorem schema_dates_forced_witness:
  "(\<exists>body. ContactSchema_init (ymd2ord 2026 11 3) example_payload = Inr body
           \<and> p_created_date example_payload = Some (Some (ymd2ord 2000 1 1))
           \<and> cs_created_date body = Some (ymd2ord 2026 11 3))
   \<and> (\<exists>body. ContactUpdateSchema_init (ymd2ord 2026 11 3) example_payload = Inr body
           \<and> cu_update_date body = Some (ymd2ord 2026 11 3))
   \<and> (\<exists>c db'. routes_contact_create_contact (ymd2ord 2026 11 3) example_payload alice
                  example_db = (Inr c, db')
           \<and> contacts db' = contacts example_db @ [c]
           \<and> created_date c = Some (ymd2ord 2026 11 3))"
proof -
  note inst = schema_dates_forced[of "ymd2ord 2026 11 3" example_payload _ _ alice example_db]
  have p: "p_created_date example_payload = Some (Some (ymd2ord 2000 1 1))"
    by (simp add: example_payload_def)
  from inst example_schema[of "ymd2ord 2026 11 3"] p
  have 1: "\<exists>body. ContactSchema_init (ymd2ord 2026 11 3) example_payload = Inr body
           \<and> p_created_date example_payload = Some (Some (ymd2ord 2000 1 1))
           \<and> cs_created_date body = Some (ymd2ord 2026 11 3)" by blast
  from inst example_update_schema[of "ymd2ord 2026 11 3"]
  have 2: "\<exists>body. ContactUpdateSchema_init (ymd2ord 2026 11 3) example_payload = Inr body
           \<and> cu_update_date body = Some (ymd2ord 2026 11 3)" by blast
  from inst example_create[of "ymd2ord 2026 11 3"]
  have 3: "\<exists>c db'. routes_contact_create_contact (ymd2ord 2026 11 3) example_payload alice
                  example_db = (Inr c, db')
           \<and> contacts db' = contacts example_db @ [c]
           \<and> created_date c = Some (ymd2ord 2026 11 3)" by blast
  from 1 2 3 show ?thesis by blast
qed

subsection \<open>Upcoming birthdays\<close>

lemma upcoming_birthdays_filter:
  "routes_contact_get_upcoming_birthdays today db
     = Inr (filter (\<lambda>c. today \<le> birthday c \<and> birthday c \<le> today + 7) (contacts db))"
  by (simp add: routes_contact_get_upcoming_birthdays_def
      repository_contacts_get_upcoming_birthdays_def where_clause_def select_Contact_def
      bind_err_def execute_def Let_def)

lemma january_before_december: "d \<le> 31 \<Longrightarrow> 1 \<le> d' \<Longrightarrow> ymd2ord y 1 d < ymd2ord y 12 d'"
  by (simp add: ymd2ord_def days_before_month_def)

text \<open>The ordinals are those of Python's \<open>date.toordinal()\<close>.\<close>

lemma ymd2ord_examples:
  "ymd2ord 1 1 1 = 1" "ymd2ord 2026 12 30 = 739980" "ymd2ord 2027 1 2 = 739983"
  by (simp_all add: ymd2ord_def days_before_year_def days_before_month_def is_leap_def)

lemma div_step:
  fixes y k :: int
  assumes "0 < k"
  shows "y div k = (y - 1) div k + (if y mod k = 0 then 1 else 0)"
proof -
  define q where "q = (y - 1) div k"
  define r where "r = (y - 1) mod k"
  have y: "y = k * q + (r + 1)" and r: "0 \<le> r" "r < k"
    using assms by (simp_all add: q_def r_def)
  show ?thesis
  proof (cases "r + 1 = k")
    case True
    with y have "y = k * (q + 1)" by (simp add: algebra_simps)
    then have "y div k = q + 1" "y mod k = 0" using assms by simp_all
    then show ?thesis by (simp add: q_def)
  next
    case False
    with r have r1: "0 \<le> r + 1" "r + 1 < k" by simp_all
    have "y div k = q" using y r1 by (metis int_div_pos_eq)
    moreover have "y mod k = r + 1" using y r1 by (metis int_mod_pos_eq mult.commute)
    ultimately show ?thesis using r by (simp add: q_def)
  qed
qed

lemma leap_count:
  "(p100 \<Longrightarrow> p4) \<Longrightarrow> (p400 \<Longrightarrow> p100) \<Longrightarrow>
   (if p4 then 1 else 0) - (if p100 then 1 else 0) + (if p400 then 1 else (0::int))
     = (if p4 \<and> (\<not> p100 \<or> p400) then 1 else 0)"
  by auto

lemma days_before_next_year:
  "days_before_year (y + 1) = days_before_year y + 365 + (if is_leap y then 1 else 0)"
proof -
  define a where "a = (y - 1) div 4"
  define b where "b = (y - 1) div 100"
  define c where "c = (y - 1) div 400"
  define p4 where "p4 \<longleftrightarrow> y mod 4 = 0"
  define p100 where "p100 \<longleftrightarrow> y mod 100 = 0"
  define p400 where "p400 \<longleftrightarrow> y mod 400 = 0"
  have d4: "y div 4 = a + (if p4 then 1 else 0)"
    unfolding a_def p4_def by (rule div_step) simp
  have d100: "y div 100 = b + (if p100 then 1 else 0)"
    unfolding b_def p100_def by (rule div_step) simp
  have d400: "y div 400 = c + (if p400 then 1 else 0)"
    unfolding c_def p400_def by (rule div_step) simp
  have "(4::int) dvd 100" by simp
  then have i1: "p100 \<Longrightarrow> p4"
    unfolding p100_def p4_def by (metis dvd_trans mod_eq_0_iff_dvd)
  have "(100::int) dvd 400" by simp
  then have i2: "p400 \<Longrightarrow> p100"
    unfolding p400_def p100_def by (metis dvd_trans mod_eq_0_iff_dvd)
  have L: "days_before_year (y + 1) = y * 365 + y div 4 - y div 100 + y div 400"
    unfolding days_before_year_def by (simp only: add_diff_cancel_right')
  have R: "days_before_year y = (y - 1) * 365 + a - b + c"
    unfolding days_before_year_def a_def b_def c_def ..
  have leap: "is_leap y \<longleftrightarrow> p4 \<and> (\<not> p100 \<or> p400)"
    unfolding is_leap_def p4_def p100_def p400_def ..
  have "days_before_year (y + 1)
          = days_before_year y + 365
            + ((if p4 then 1 else 0) - (if p100 then 1 else 0) + (if p400 then 1 else 0))"
    unfolding L R d4 d100 d400 by (simp only: algebra_simps)
  then show ?thesis
    unfolding leap using leap_count[OF i1 i2] by simp
qed

lemma january_after_december:
  "ymd2ord (y + 1) 1 d - ymd2ord y 12 d' = d + 31 - d'"
  by (simp add: ymd2ord_def days_before_month_def days_before_next_year)

lemma days_before_year_mono: "y \<le> y' \<Longrightarrow> days_before_year y \<le> days_before_year y'"
proof (induction y' rule: int_ge_induct)
  case base
  show ?case by simp
next
  case (step i)
  have "days_before_year i \<le> days_before_year (i + 1)"
    by (simp add: days_before_next_year)
  with step.IH show ?case by simp
qed

lemma earlier_january_before_december:
  assumes "y' \<le> y" "d \<le> 31" "1 \<le> d'"
  shows "ymd2ord y' 1 d < ymd2ord y 12 d'"
proof -
  have "ymd2ord y' 1 d = days_before_year y' + d"
    by (simp add: ymd2ord_def days_before_month_def)
  also have "\<dots> \<le> days_before_year y + d"
    using days_before_year_mono[OF assms(1)] by simp
  also have "\<dots> < ymd2ord y 12 d'"
    using assms(2,3) by (simp add: ymd2ord_def days_before_month_def)
  finally show ?thesis .
qed

lemma returned_by_upcoming:
  "returned_by (routes_contact_get_upcoming_birthdays today db) c \<longleftrightarrow>
     c \<in> set (contacts db) \<and> today \<le> birthday c \<and> birthday c \<le> today + 7"
  by (auto simp: returned_by_def upcoming_birthdays_filter)

text \<open>
  C4, as the code has it. The query returns exactly the contacts, of any owner, whose
  stored birthday (a full date, year included) lies between today and seven days later,
  both ends included: of four contacts with birthdays 0, 3, 7 and 8 days from today it
  returns the first three. The comparison is on full dates, so it crosses the end of the
  year: with today in December, a birthday stored as a January date of the following
  year is returned exactly when it is at most seven days ahead, and a January date of
  today's year or of an earlier year is never returned.
\<close>

theorem upcoming_birthdays_window:
  "routes_contact_get_upcoming_birthdays today db
     = Inr (filter (\<lambda>c. today \<le> birthday c \<and> birthday c \<le> today + 7) (contacts db))
   \<and> (birthday c0 = today \<and> birthday c3 = today + 3 \<and> birthday c7 = today + 7
        \<and> birthday c8 = today + 8 \<longrightarrow>
      routes_contact_get_upcoming_birthdays today (db\<lparr>contacts := [c0, c3, c7, c8]\<rparr>)
        = Inr [c0, c3, c7])
   \<and> (\<forall>c\<in>set (contacts db).
        1 \<le> d \<and> d' \<le> 31 \<and> today = ymd2ord y 12 d' \<and> birthday c = ymd2ord (y + 1) 1 d \<longrightarrow>
        (returned_by (routes_contact_get_upcoming_birthdays today db) c \<longleftrightarrow> d + 31 - d' \<le> 7))
   \<and> (\<forall>c\<in>set (contacts db).
        y' \<le> y \<and> d \<le> 31 \<and> 1 \<le> d' \<and> today = ymd2ord y 12 d' \<and> birthday c = ymd2ord y' 1 d \<longrightarrow>
        \<not> returned_by (routes_contact_get_upcoming_birthdays today db) c)"
proof (intro conjI ballI impI)
  show "routes_contact_get_upcoming_birthdays today db
     = Inr (filter (\<lambda>c. today \<le> birthday c \<and> birthday c \<le> today + 7) (contacts db))"
    by (rule upcoming_birthdays_filter)
next
  assume "birthday c0 = today \<and> birthday c3 = today + 3 \<and> birthday c7 = today + 7
        \<and> birthday c8 = today + 8"
  then show "routes_contact_get_upcoming_birthdays today (db\<lparr>contacts := [c0, c3, c7, c8]\<rparr>)
        = Inr [c0, c3, c7]"
    by (simp add: upcoming_birthdays_filter)
next
  fix c assume c: "c \<in> set (contacts db)"
    and h: "1 \<le> d \<and> d' \<le> 31 \<and> today = ymd2ord y 12 d' \<and> birthday c = ymd2ord (y + 1) 1 d"
  from h january_after_december[of y d d']
  have "birthday c - today = d + 31 - d'" by simp
  with h c show "returned_by (routes_contact_get_upcoming_birthdays today db) c
                   \<longleftrightarrow> d + 31 - d' \<le> 7"
    unfolding returned_by_upcoming by auto
next
  fix c assume c: "c \<in> set (contacts db)"
    and h: "y' \<le> y \<and> d \<le> 31 \<and> 1 \<le> d' \<and> today = ymd2ord y 12 d' \<and> birthday c = ymd2ord y' 1 d"
  then have "birthday c < today"
    using earlier_january_before_december[of y' y d d'] by simp
  then show "\<not> returned_by (routes_contact_get_upcoming_birthdays today db) c"
    unfolding returned_by_upcoming by simp
qed

theorem upcoming_birthdays_window_witness:
  "routes_contact_get_upcoming_birthdays 100
       (example_db\<lparr>contacts := [january_contact\<lparr>birthday := 100\<rparr>,
                                january_contact\<lparr>birthday := 103\<rparr>,
                                january_contact\<lparr>birthday := 107\<rparr>,
                                january_contact\<lparr>birthday := 108\<rparr>]\<rparr>)
     = Inr [january_contact\<lparr>birthday := 100\<rparr>, january_contact\<lparr>birthday := 103\<rparr>,
            january_contact\<lparr>birthday := 107\<rparr>]
   \<and> returned_by (routes_contact_get_upcoming_birthdays (ymd2ord 2026 12 30) december_db)
        january_contact
   \<and> \<not> returned_by (routes_contact_get_upcoming_birthdays (ymd2ord 2026 12 30)
            (december_db\<lparr>contacts := [born_1990]\<rparr>))
          born_1990"
proof -
  note w1 = upcoming_birthdays_window[where today = 100 and db = example_db
      and ?c0.0 = "january_contact\<lparr>birthday := 100\<rparr>"
      and ?c3.0 = "january_contact\<lparr>birthday := 103\<rparr>"
      and ?c7.0 = "january_contact\<lparr>birthday := 107\<rparr>"
      and ?c8.0 = "january_contact\<lparr>birthday := 108\<rparr>"]
  from w1[THEN conjunct2, THEN conjunct1]
  have 1: "routes_contact_get_upcoming_birthdays 100
       (example_db\<lparr>contacts := [january_contact\<lparr>birthday := 100\<rparr>,
                                january_contact\<lparr>birthday := 103\<rparr>,
                                january_contact\<lparr>birthday := 107\<rparr>,
                                january_contact\<lparr>birthday := 108\<rparr>]\<rparr>)
     = Inr [january_contact\<lparr>birthday := 100\<rparr>, january_contact\<lparr>birthday := 103\<rparr>,
            january_contact\<lparr>birthday := 107\<rparr>]"
    by simp
  have m: "january_contact \<in> set (contacts december_db)"
    by (simp add: december_db_def)
  have b: "birthday january_contact = ymd2ord (2026 + 1) 1 2"
    by (simp add: january_contact_def)
  note w2 = upcoming_birthdays_window[where today = "ymd2ord 2026 12 30" and db = december_db
      and d = 2 and d' = 30 and y = 2026]
  from w2[THEN conjunct2, THEN conjunct2, THEN conjunct1, rule_format, OF m] b
  have 2: "returned_by (routes_contact_get_upcoming_birthdays (ymd2ord 2026 12 30) december_db)
        january_contact"
    by simp
  have m': "born_1990 \<in> set (contacts (december_db\<lparr>contacts := [born_1990]\<rparr>))" by simp
  have b': "birthday born_1990 = ymd2ord 1990 1 2" by (simp add: born_1990_def)
  note w3 = upcoming_birthdays_window[where today = "ymd2ord 2026 12 30"
      and db = "december_db\<lparr>contacts := [born_1990]\<rparr>"
      and d = 2 and d' = 30 and y = 2026 and y' = 1990]
  from w3[THEN conjunct2, THEN conjunct2, THEN conjunct2, rule_format, OF m'] b'
  have 3: "\<not> returned_by (routes_contact_get_upcoming_birthdays (ymd2ord 2026 12 30)
            (december_db\<lparr>contacts := [born_1990]\<rparr>)) born_1990"
    by simp
  from 1 2 3 show ?thesis by blast
qed

text \<open>
  The claim as written says that a birthday in early January is not returned when today
  is in late December. With today 2026-12-30 and a contact whose birthday is stored as
  2027-01-02, three days ahead, the query returns that contact.
\<close>

theorem upcoming_birthdays_january_counterexample:
  "january_contact \<in> set (contacts december_db)
   \<and> birthday january_contact = ymd2ord 2027 1 2
   \<and> routes_contact_get_upcoming_birthdays (ymd2ord 2026 12 30) december_db
       = Inr [january_contact]"
proof -
  have "ymd2ord 2027 1 2 - ymd2ord (2026::int) 12 30 = 3"
    using january_after_december[of 2026 2 30] by simp
  then show ?thesis
    by (simp add: upcoming_birthdays_filter december_db_def january_contact_def)
qed

subsection \<open>Reading, listing and deleting contacts\<close>

lemma get_contact_raises:
  "repository_contacts_get_contact [contact_id, session, usr] db = Inl TypeError"
  by (simp add: repository_contacts_get_contact_def where_clause_def bind_err_def)

lemma route_get_contact_raises:
  "routes_contact_get_contact contact_id usr db
     = (if contact_id < 1 then Inl RequestValidationError else Inl TypeError)"
  by (simp add: routes_contact_get_contact_def get_contact_raises)

lemma execute_plain:
  "execute VSession \<lparr>whereclause = ps, offset_clause = None, limit_clause = None\<rparr> db
     = Inr (filter (\<lambda>c. list_all (\<lambda>p. p c) ps) (contacts db))"
  by (simp add: execute_def Let_def)

lemma filter_by_id_user:
  "filter_by [(''id'', VInt i), (''user'', VUser u)] select_Contact
     = Inr \<lparr>whereclause = [\<lambda>c. VInt (c_id c) = VInt i, \<lambda>c. user_id c = Some (u_id u)],
            offset_clause = None, limit_clause = None\<rparr>"
  by (simp add: criterion_def bind_err_def select_Contact_def)

lemma remove_contact_four_arguments:
  "repository_contacts_remove_contact [VInt i, body, VSession, VUser u] db =
     (case scalar_one_or_none (filter (\<lambda>c. c_id c = i \<and> user_id c = Some (u_id u)) (contacts db)) of
        Inl e \<Rightarrow> (Inl e, db)
      | Inr None \<Rightarrow> (Inr None, db)
      | Inr (Some c) \<Rightarrow>
          (Inr (Some c), db\<lparr>contacts := filter (\<lambda>x. c_id x \<noteq> c_id c) (contacts db)\<rparr>))"
  by (simp add: repository_contacts_remove_contact_def filter_by_id_user execute_plain bind_err_def
      del: filter_by.simps)

lemma remove_contact_three_arguments:
  "repository_contacts_remove_contact [a, b, c] db = (Inl TypeError, db)"
  by (simp add: repository_contacts_remove_contact_def)

lemma route_delete_contact_raises:
  "routes_contact_delete_contact contact_id usr db
     = (if contact_id < 1 then (Inl RequestValidationError, db) else (Inl TypeError, db))"
  by (simp add: routes_contact_delete_contact_def remove_contact_three_arguments)

lemma get_contacts_page:
  "repository_contacts_get_contacts [VInt limit, VInt offset, VSession, VUser u] db =
     (if offset < 0 \<or> limit < 0 then Inl DBAPIError
      else Inr (take (nat limit) (drop (nat offset)
                  (filter (\<lambda>c. user_id c = Some (u_id u)) (contacts db)))))"
  by (simp add: repository_contacts_get_contacts_def criterion_def bind_err_def
      select_Contact_def offset_by_def limit_by_def execute_def Let_def)

lemma route_read_contacts_raises:
  "routes_contact_read_contacts skip limit current_user db = Inl ArgumentError"
  by (simp add: routes_contact_read_contacts_def repository_contacts_get_contacts_def
      criterion_def bind_err_def)

lemma route_get_all_raises:
  "routes_contact_get_all limit offset usr db = Inl TypeError"
  by (simp add: routes_contact_get_all_def repository_contacts_get_contacts_def bind_err_def)

text \<open>
  C1. The user with identifier 1 owns the contact with identifier 1 and requests it.
  The repository function raises \<open>TypeError\<close> while it builds its statement, so the
  route neither returns the contact nor answers 404.
\<close>

theorem get_contact_owned_raises:
  "ann \<in> set (contacts contacts_db) \<and> c_id ann = 1 \<and> user_id ann = Some (u_id alice)
   \<and> routes_contact_get_contact 1 alice contacts_db = Inl TypeError
   \<and> routes_contact_get_contact 2 alice contacts_db = Inl TypeError"
  by (simp add: route_get_contact_raises contacts_db_def ann_def alice_def)

text \<open>
  C2. A user who owns one contact lists the contacts with the default \<open>skip = 0\<close> and
  \<open>limit = 100\<close>. The handler hands \<open>skip, limit, current_user, db\<close> to a function whose
  parameters are \<open>limit, offset, db, user\<close>: the session arrives as the user of the
  criterion, which raises \<open>ArgumentError\<close>. The second handler of the same path calls
  the function with one argument and raises \<open>TypeError\<close>. Called with its arguments in
  the declared order, the repository function returns the caller's page.
\<close>

theorem read_contacts_raises:
  "ann \<in> set (contacts contacts_db) \<and> user_id ann = Some (u_id alice)
   \<and> routes_contact_read_contacts 0 100 alice contacts_db = Inl ArgumentError
   \<and> routes_contact_get_all 10 0 alice contacts_db = Inl TypeError
   \<and> repository_contacts_get_contacts [VInt 100, VInt 0, VSession, VUser alice] contacts_db
       = Inr [ann]"
  by (simp add: route_read_contacts_raises route_get_all_raises get_contacts_page
      contacts_db_def ann_def alice_def)

text \<open>
  C3. The user with identifier 1 deletes the contact with identifier 1, which that user
  owns. The handler calls the repository function, which has four parameters, with
  three arguments: the call raises \<open>TypeError\<close> and nothing is deleted. Called with
  four arguments, the repository function deletes the contact and returns it.
\<close>

theorem delete_contact_owned_raises:
  "ann \<in> set (contacts contacts_db) \<and> c_id ann = 1 \<and> user_id ann = Some (u_id alice)
   \<and> routes_contact_delete_contact 1 alice contacts_db = (Inl TypeError, contacts_db)
   \<and> routes_contact_delete_contact 2 alice contacts_db = (Inl TypeError, contacts_db)
   \<and> repository_contacts_remove_contact [VInt 1, VInt 0, VSession, VUser alice] contacts_db
       = (Inr (Some ann), contacts_db\<lparr>contacts := []\<rparr>)"
  by (simp add: route_delete_contact_raises remove_contact_four_arguments
      scalar_one_or_none_def contacts_db_def ann_def alice_def)

end
